theory Spec2Isabelle
  imports Main "HOL-Library.AList"
begin

section \<open>The Deploy-to-Grading orchestrator (scripts/deploy\_to\_grading.py)\<close>

text \<open>
  The script is a sequence of prints, configuration loads and subprocess calls. Its
  collaborators (the YAML loader, the file system, the child processes) are parameters
  of the model; what the script does with their answers is translated function by
  function. A leading underscore of a Python name is dropped, since an Isabelle name
  cannot start with one.
\<close>

subsection \<open>Python values\<close>

text \<open>
  A Python dict whose keys and values are strings: an association list in insertion
  order. The configurations and \<open>os.environ\<close> are such mappings.
\<close>

type_synonym dict = "(string \<times> string) list"

text \<open>
  The exceptions that occur. \<open>exit(n)\<close> raises \<open>SystemExit n\<close>; \<open>OtherException\<close>
  stands for anything else a collaborator raises (an \<open>OSError\<close> of
  \<open>subprocess.run\<close>, for instance).
\<close>

datatype py_exc =
    FileNotFoundError
  | YAMLError
  | KeyError string
  | TypeError
  | SystemExit int
  | OtherException string

text \<open>
  What the process does that can be observed from outside, in the order it happens:
  a line printed, a call of the configuration loader with its answer, a call of
  \<open>subprocess.run\<close> (argument vector, \<open>cwd\<close>, \<open>env\<close>) with its answer, the return code
  of the child or the exception raised instead.
\<close>

datatype event =
    Print string
  | LoadYaml string "string option" "py_exc + dict"
  | Run "string list" "string option" "dict option" "py_exc + int"

text \<open>
  The collaborators, over a world \<open>'w\<close> (file system and everything else outside the
  process). Module \<open>load_yaml\<close> is imported by the script and is not part of it:
  \<open>load_yaml w path prefix\<close> is its answer in world \<open>w\<close>. \<open>path_exists\<close> is
  \<open>os.path.exists\<close>. A child process may change the world. \<open>str_upper\<close> is \<open>str.upper\<close>
  on the strings that have a character outside ASCII: the case mapping of Unicode is
  not written out, it is taken as it is.
\<close>

record 'w collaborators =
  load_yaml :: "'w \<Rightarrow> string \<Rightarrow> string option \<Rightarrow> py_exc + dict"
  path_exists :: "'w \<Rightarrow> string \<Rightarrow> bool"
  subprocess_run ::
    "'w \<Rightarrow> string list \<Rightarrow> string option \<Rightarrow> dict option \<Rightarrow> (py_exc + int) \<times> 'w"
  str_upper :: "string \<Rightarrow> string"

text \<open>
  A computation takes the world and gives back the exception raised or the value
  returned, the new world, and the events it caused.
\<close>

type_synonym ('w, 'a) io = "'w \<Rightarrow> (py_exc + 'a) \<times> 'w \<times> event list"

definition return_io :: "'a \<Rightarrow> ('w, 'a) io" where
  "return_io x w = (Inr x, w, [])"

definition raise_io :: "py_exc \<Rightarrow> ('w, 'a) io" where
  "raise_io e w = (Inl e, w, [])"

text \<open>The events \<open>t1\<close> happened before those of the outcome \<open>res\<close>.\<close>

definition prepend_events ::
  "event list \<Rightarrow> (py_exc + 'a) \<times> 'w \<times> event list \<Rightarrow> (py_exc + 'a) \<times> 'w \<times> event list" where
  "prepend_events t1 res = (case res of (r, w2, t2) \<Rightarrow> (r, w2, t1 @ t2))"

text \<open>Sequencing: an exception of the first part skips the second.\<close>

definition bind_io :: "('w, 'a) io \<Rightarrow> ('a \<Rightarrow> ('w, 'b) io) \<Rightarrow> ('w, 'b) io" where
  "bind_io m f w =
     (case m w of
        (Inl e, w1, t1) \<Rightarrow> (Inl e, w1, t1)
      | (Inr x, w1, t1) \<Rightarrow> prepend_events t1 (f x w1))"

text \<open>\<open>try: body except (caught): handler\<close>.\<close>

definition try_except :: "('w, 'a) io \<Rightarrow> (py_exc \<Rightarrow> bool) \<Rightarrow> ('w, 'a) io \<Rightarrow> ('w, 'a) io" where
  "try_except body caught handler w =
     (case body w of
        (Inl e, w1, t1) \<Rightarrow>
          (if caught e then prepend_events t1 (handler w1) else (Inl e, w1, t1))
      | (Inr x, w1, t1) \<Rightarrow> (Inr x, w1, t1))"

definition py_print :: "string \<Rightarrow> ('w, unit) io" where
  "py_print msg w = (Inr (), w, [Print msg])"

text \<open>\<open>d[k]\<close>: a missing key raises \<open>KeyError\<close>.\<close>

definition getitem :: "dict \<Rightarrow> string \<Rightarrow> ('w, string) io" where
  "getitem d k w = (case map_of d k of None \<Rightarrow> (Inl (KeyError k), w, []) | Some v \<Rightarrow> (Inr v, w, []))"

definition conf_load :: "'w collaborators \<Rightarrow> string \<Rightarrow> string option \<Rightarrow> ('w, dict) io" where
  "conf_load c path prefix w =
     (load_yaml c w path prefix, w, [LoadYaml path prefix (load_yaml c w path prefix)])"

definition run ::
  "'w collaborators \<Rightarrow> string list \<Rightarrow> string option \<Rightarrow> dict option \<Rightarrow> ('w, int) io" where
  "run c argv cwd env w =
     (case subprocess_run c w argv cwd env of (r, w') \<Rightarrow> (r, w', [Run argv cwd env r]))"

text \<open>
  \<open>s.split(" ")\<close>: a split at every occurrence of the separator; empty pieces are
  kept, and the empty string gives one empty piece.
\<close>

fun py_split :: "char \<Rightarrow> string \<Rightarrow> string list" where
  "py_split sep [] = [[]]"
| "py_split sep (x # xs) =
     (if x = sep then [] # py_split sep xs
      else (case py_split sep xs of
              [] \<Rightarrow> [[x]]
            | piece # pieces \<Rightarrow> (x # piece) # pieces))"

text \<open>
  \<open>s.upper()\<close>. A \<open>char\<close> is a byte and a Python string is the list of the bytes of its
  UTF-8 form. On a string of ASCII characters \<open>str.upper\<close> maps the letters \<open>a\<close> to \<open>z\<close>
  to \<open>A\<close> to \<open>Z\<close> and leaves the other characters; on the other strings, where it
  follows the case mapping of Unicode and may change the length, it is \<open>str_upper\<close>.
\<close>

definition upper_char :: "char \<Rightarrow> char" where
  "upper_char ch =
     (if 97 \<le> (of_char ch :: nat) \<and> (of_char ch :: nat) \<le> 122
      then char_of ((of_char ch :: nat) - 32) else ch)"

definition upper :: "'w collaborators \<Rightarrow> string \<Rightarrow> string" where
  "upper c s =
     (if list_all (\<lambda>ch. (of_char ch :: nat) < 128) s then map upper_char s
      else str_upper c s)"

text \<open>\<open>os.path.join(a, b)\<close> of \<open>posixpath\<close>, for two components.\<close>

definition path_join :: "string \<Rightarrow> string \<Rightarrow> string" where
  "path_join a b =
     (if take 1 b = ''/'' then b
      else if a = [] \<or> last a = CHR ''/'' then a @ b
      else a @ ''/'' @ b)"

text \<open>
  \<open>dict(mapping, **kw1, ..., **kwn)\<close>. The keyword arguments are collected first; a key
  given by two of the unpacked mappings raises \<open>TypeError\<close> (``got multiple values for
  keyword argument''). The new dict is a copy of \<open>mapping\<close> updated with the keyword
  arguments: the value of a key already there is replaced in its place, a new key goes
  to the end.
\<close>

fun kwargs_unpack :: "dict \<Rightarrow> dict list \<Rightarrow> py_exc + dict" where
  "kwargs_unpack kwargs [] = Inr kwargs"
| "kwargs_unpack kwargs (d # ds) =
     (if list_ex (\<lambda>k. k \<in> set (map fst kwargs)) (map fst d) then Inl TypeError
      else kwargs_unpack (kwargs @ d) ds)"

definition dict_update :: "dict \<Rightarrow> dict \<Rightarrow> dict" where
  "dict_update d kwargs = fold (\<lambda>(k, v). AList.update k v) kwargs d"

definition py_dict :: "dict \<Rightarrow> dict list \<Rightarrow> ('w, dict) io" where
  "py_dict mapping kws w =
     (case kwargs_unpack [] kws of
        Inl e \<Rightarrow> (Inl e, w, [])
      | Inr kwargs \<Rightarrow> (Inr (dict_update mapping kwargs), w, []))"

text \<open>\<open>"%s" % x\<close> for \<open>x\<close> a string or \<open>None\<close>.\<close>

definition str_of :: "string option \<Rightarrow> string" where
  "str_of x = (case x of None \<Rightarrow> ''None'' | Some s \<Rightarrow> s)"

subsection \<open>The script\<close>

definition ASSIGNMENT_FILE_NAME :: string where
  "ASSIGNMENT_FILE_NAME = ''assignment.yml''"

definition TASK_FILENAME :: string where
  "TASK_FILENAME = ''task.yml''"

definition usage_lines :: "string list" where
  "usage_lines =
     [''usage: deploy_to_grading.py'',
      ''       Executes the Deploy-to-Grading pipeline. Make sure to'',
      ''       execute the script inside an assignment folder and'',
      ''       that the D2G_PATH env variable is set.'']"

definition print_usage :: "('w, unit) io" where
  "print_usage w = (Inr (), w, map Print usage_lines)"

definition print_error_and_exit :: "string \<Rightarrow> ('w, 'a) io" where
  "print_error_and_exit error_msg =
     bind_io (py_print error_msg) (\<lambda>_.
     bind_io print_usage (\<lambda>_.
     raise_io (SystemExit (- 1))))"

definition config_error :: "py_exc \<Rightarrow> bool" where
  "config_error e = (e = FileNotFoundError \<or> e = YAMLError)"

definition load_assignment_config :: "'w collaborators \<Rightarrow> ('w, dict) io" where
  "load_assignment_config c =
     bind_io (py_print ''Loading assignment configuration'') (\<lambda>_.
     try_except (conf_load c ASSIGNMENT_FILE_NAME None) config_error
       (print_error_and_exit (''Failed to load '' @ ASSIGNMENT_FILE_NAME)))"

definition checkout_due_date :: "'w collaborators \<Rightarrow> dict \<Rightarrow> string \<Rightarrow> ('w, unit) io" where
  "checkout_due_date c environ due_date =
     bind_io (py_print ''Checking out due date'') (\<lambda>_.
     bind_io (getitem environ ''D2G_PATH'') (\<lambda>d2g.
     bind_io (run c [path_join d2g ''scripts/checkout_due_date.sh'', due_date] None None)
       (\<lambda>returncode.
     if returncode \<noteq> 0 then print_error_and_exit ''Failed to evaluate checkout commit''
     else return_io ())))"

definition load_task_config :: "'w collaborators \<Rightarrow> string \<Rightarrow> ('w, dict) io" where
  "load_task_config c taskname =
     bind_io (py_print (''Loading task configuration for task '' @ taskname)) (\<lambda>_.
     try_except (conf_load c (path_join taskname TASK_FILENAME) (Some (upper c taskname)))
       config_error
       (print_error_and_exit (''Failed to load '' @ path_join taskname TASK_FILENAME)))"

text \<open>
  \<open>if taskname:\<close> holds for a name that is neither \<open>None\<close> nor the empty string.
\<close>

definition override_repo ::
  "'w collaborators \<Rightarrow> dict \<Rightarrow> string option \<Rightarrow> string \<Rightarrow> dict option \<Rightarrow> ('w, unit) io" where
  "override_repo c environ taskname repository task_configuration =
     bind_io (py_print (''Overriding repository for task '' @ str_of taskname)) (\<lambda>_.
     bind_io (getitem environ ''D2G_PATH'') (\<lambda>d2g.
     bind_io
       (case taskname of
          Some t \<Rightarrow>
            (if t \<noteq> [] then
               run c [path_join d2g ''scripts/override_repo.py'', ''-t'', t, ''-r'', repository]
                 (Some t) task_configuration
             else run c [path_join d2g ''scripts/override_repo.py'', ''-a'', ''-r'', repository]
                    None None)
        | None \<Rightarrow>
            run c [path_join d2g ''scripts/override_repo.py'', ''-a'', ''-r'', repository]
              None None)
       (\<lambda>returncode.
     if returncode \<noteq> 0 then print_error_and_exit ''Failed to execute override_repo.py''
     else return_io ())))"

definition get_metric_script_path ::
  "'w collaborators \<Rightarrow> dict \<Rightarrow> string \<Rightarrow> ('w, string list) io" where
  "get_metric_script_path c environ metric =
     bind_io (getitem environ ''D2G_PATH'') (\<lambda>d2g w.
       (let base_path = path_join d2g (''scripts/metrics/'' @ metric) in
        if path_exists c w (base_path @ ''.sh'') then (Inr [base_path @ ''.sh''], w, [])
        else if path_exists c w (base_path @ ''.py'') then (Inr [base_path @ ''.py''], w, [])
        else (Inr [''./gradlew'', metric], w, [])))"

text \<open>The body of the \<open>for\<close> loop of \<open>_execute_metrics\<close>, over the metrics left to run.\<close>

primrec execute_metrics_loop ::
  "'w collaborators \<Rightarrow> dict \<Rightarrow> string \<Rightarrow> string list \<Rightarrow> ('w, unit) io" where
  "execute_metrics_loop c environ taskname [] = return_io ()"
| "execute_metrics_loop c environ taskname (metric # metrics) =
     bind_io (py_print (''Executing metric '' @ metric @ '' for task '' @ taskname)) (\<lambda>_.
     bind_io (get_metric_script_path c environ metric) (\<lambda>metric_script.
     bind_io (run c metric_script (Some taskname) None) (\<lambda>returncode.
     if returncode \<noteq> 0 then print_error_and_exit (''Failed to execute metric '' @ metric)
     else execute_metrics_loop c environ taskname metrics)))"

definition execute_metrics :: "'w collaborators \<Rightarrow> dict \<Rightarrow> string \<Rightarrow> string \<Rightarrow> ('w, unit) io" where
  "execute_metrics c environ taskname metrics =
     execute_metrics_loop c environ taskname (py_split CHR '' '' metrics)"

definition evaluate_metrics ::
  "'w collaborators \<Rightarrow> dict \<Rightarrow> string \<Rightarrow> string \<Rightarrow> dict \<Rightarrow> dict \<Rightarrow> ('w, unit) io" where
  "evaluate_metrics c environ taskname metrics task_configuration assignment_configuration =
     bind_io (py_print (''Evaluating metrics for task '' @ taskname)) (\<lambda>_.
     bind_io (getitem environ ''D2G_PATH'') (\<lambda>d2g.
     bind_io (py_dict environ [task_configuration, assignment_configuration]) (\<lambda>env.
     bind_io (run c [path_join d2g ''scripts/evaluate_task.py'', taskname] (Some taskname)
                (Some env)) (\<lambda>returncode.
     if returncode \<noteq> 0 then print_error_and_exit ''Failed to execute evaluate_task.py''
     else return_io ()))))"

definition evaluate_task :: "'w collaborators \<Rightarrow> dict \<Rightarrow> string \<Rightarrow> dict \<Rightarrow> ('w, unit) io" where
  "evaluate_task c environ taskname assignment_configuration =
     bind_io (load_task_config c taskname) (\<lambda>task_conf.
     bind_io (getitem assignment_configuration ''ASSIGNMENT_TEMPLATE_REPOSITORY'') (\<lambda>repository.
     bind_io (override_repo c environ (Some taskname) repository (Some task_conf)) (\<lambda>_.
     bind_io (getitem task_conf (upper c taskname @ ''_METRICS'')) (\<lambda>metrics.
     bind_io (execute_metrics c environ taskname metrics) (\<lambda>_.
     bind_io (getitem task_conf (upper c taskname @ ''_METRICS'')) (\<lambda>metrics'.
     evaluate_metrics c environ taskname metrics' task_conf assignment_configuration))))))"

definition create_artifact :: "'w collaborators \<Rightarrow> dict \<Rightarrow> dict \<Rightarrow> ('w, unit) io" where
  "create_artifact c environ assignment_configuration =
     bind_io (py_print ''Creating artifact'') (\<lambda>_.
     bind_io (getitem environ ''D2G_PATH'') (\<lambda>d2g.
     bind_io (py_dict environ [assignment_configuration]) (\<lambda>env.
     bind_io (run c [path_join d2g ''scripts/create_artifact.sh''] None (Some env)) (\<lambda>returncode.
     if returncode \<noteq> 0 then print_error_and_exit ''Failed to execute create_artifact.sh''
     else return_io ()))))"

definition present_results :: "'w collaborators \<Rightarrow> dict \<Rightarrow> dict \<Rightarrow> ('w, unit) io" where
  "present_results c environ assignment_configuration =
     bind_io (create_artifact c environ assignment_configuration) (\<lambda>_.
     bind_io (getitem environ ''D2G_PATH'') (\<lambda>d2g.
     bind_io (py_dict environ [assignment_configuration]) (\<lambda>env.
     bind_io (run c [path_join d2g ''scripts/print_results_student.py''] None (Some env))
       (\<lambda>returncode.
     if returncode \<noteq> 0 then print_error_and_exit ''Failed to print student results''
     else return_io ()))))"

text \<open>The return code of the child is not looked at.\<close>

definition revert_checkout :: "'w collaborators \<Rightarrow> dict \<Rightarrow> ('w, unit) io" where
  "revert_checkout c environ =
     bind_io (getitem environ ''D2G_PATH'') (\<lambda>d2g.
     bind_io (run c [path_join d2g ''scripts/revert_checkout.sh''] None None) (\<lambda>_.
     return_io ()))"

text \<open>The \<open>for\<close> loop of \<open>_main\<close>, over the tasks left to evaluate.\<close>

primrec evaluate_tasks ::
  "'w collaborators \<Rightarrow> dict \<Rightarrow> string list \<Rightarrow> dict \<Rightarrow> ('w, unit) io" where
  "evaluate_tasks c environ [] assignment_conf = return_io ()"
| "evaluate_tasks c environ (task # tasks) assignment_conf =
     bind_io (evaluate_task c environ task assignment_conf) (\<lambda>_.
     evaluate_tasks c environ tasks assignment_conf)"

definition main :: "'w collaborators \<Rightarrow> dict \<Rightarrow> ('w, unit) io" where
  "main c environ =
     bind_io (load_assignment_config c) (\<lambda>assignment_conf.
     bind_io (getitem assignment_conf ''ASSIGNMENT_DUE_DATE'') (\<lambda>due_date.
     bind_io (checkout_due_date c environ due_date) (\<lambda>_.
     bind_io (getitem assignment_conf ''ASSIGNMENT_TEMPLATE_REPOSITORY'') (\<lambda>repository.
     bind_io (override_repo c environ None repository None) (\<lambda>_.
     bind_io (getitem assignment_conf ''ASSIGNMENT_TASKS'') (\<lambda>tasks.
     bind_io (evaluate_tasks c environ (py_split CHR '' '' tasks) assignment_conf) (\<lambda>_.
     bind_io (present_results c environ assignment_conf) (\<lambda>_.
     revert_checkout c environ))))))))"

text \<open>
  The exit status of the process: 0 when \<open>_main\<close> returns, the low eight bits of the
  argument of \<open>exit\<close>, and 1 for an exception nobody catches.
\<close>

definition exit_status :: "py_exc + unit \<Rightarrow> int" where
  "exit_status r =
     (case r of
        Inr _ \<Rightarrow> 0
      | Inl (SystemExit n) \<Rightarrow> n mod 256
      | Inl _ \<Rightarrow> 1)"

subsection \<open>Metric resolution as the specification words it\<close>

text \<open>
  ``Resolve to an executable path by probing for a shell script, then a
  scripting-language script, falling back to a generic build-tool task name'', for the
  scripts of directory \<open>dir\<close>.
\<close>

definition metric_resolution_spec :: "(string \<Rightarrow> bool) \<Rightarrow> string \<Rightarrow> string \<Rightarrow> string list" where
  "metric_resolution_spec file_exists dir metric =
     (if file_exists (dir @ metric @ ''.sh'') then [dir @ metric @ ''.sh'']
      else if file_exists (dir @ metric @ ''.py'') then [dir @ metric @ ''.py'']
      else [''./gradlew'', metric])"

subsection \<open>A concrete assignment\<close>

text \<open>
  An assignment with one task and two metrics, in a world that counts the child
  processes started. Only \<open>test.py\<close> exists among the metric scripts. The names of the
  example are ASCII, so that \<open>str_upper\<close> is never read.
\<close>

definition example_environ :: dict where
  "example_environ = [(''D2G_PATH'', ''/d2g''), (''HOME'', ''/root'')]"

definition example_assignment :: dict where
  "example_assignment =
     [(''ASSIGNMENT_DUE_DATE'', ''2023-05-01''),
      (''ASSIGNMENT_TEMPLATE_REPOSITORY'', ''https://example.org/template.git''),
      (''ASSIGNMENT_TASKS'', ''task1'')]"

definition example_task :: dict where
  "example_task = [(''TASK1_METRICS'', ''compile test'')]"

definition all_succeed :: "nat collaborators" where
  "all_succeed =
     \<lparr>load_yaml = (\<lambda>w path prefix.
        if prefix = None then Inr example_assignment else Inr example_task),
      path_exists = (\<lambda>w path. path = ''/d2g/scripts/metrics/test.py''),
      subprocess_run = (\<lambda>w argv cwd env. (Inr 0, Suc w)),
      str_upper = (\<lambda>s. s)\<rparr>"

text \<open>Variants of the example: the children all return 1; no configuration file is found;
  \<open>task.yml\<close> is not valid YAML; the revert script alone returns a code other than 0.\<close>

definition checkout_fails :: "nat collaborators" where
  "checkout_fails = all_succeed\<lparr>subprocess_run := (\<lambda>w argv cwd env. (Inr 1, Suc w))\<rparr>"

definition assignment_missing :: "nat collaborators" where
  "assignment_missing = all_succeed\<lparr>load_yaml := (\<lambda>w path prefix. Inl FileNotFoundError)\<rparr>"

definition task_malformed :: "nat collaborators" where
  "task_malformed =
     all_succeed\<lparr>load_yaml := (\<lambda>w path prefix.
       if prefix = None then Inr example_assignment else Inl YAMLError)\<rparr>"


text \<open>The events of the example up to the revert call, and the events of three runs.\<close>

definition example_steps :: "event list" where
  "example_steps =
     [Print ''Loading assignment configuration'',
      LoadYaml ''assignment.yml'' None (Inr example_assignment),
      Print ''Checking out due date'',
      Run [''/d2g/scripts/checkout_due_date.sh'', ''2023-05-01''] None None (Inr 0),
      Print ''Overriding repository for task None'',
      Run [''/d2g/scripts/override_repo.py'', ''-a'', ''-r'', ''https://example.org/template.git'']
        None None (Inr 0),
      Print ''Loading task configuration for task task1'',
      LoadYaml ''task1/task.yml'' (Some ''TASK1'') (Inr example_task),
      Print ''Overriding repository for task task1'',
      Run [''/d2g/scripts/override_repo.py'', ''-t'', ''task1'', ''-r'',
           ''https://example.org/template.git'']
        (Some ''task1'') (Some example_task) (Inr 0),
      Print ''Executing metric compile for task task1'',
      Run [''./gradlew'', ''compile''] (Some ''task1'') None (Inr 0),
      Print ''Executing metric test for task task1'',
      Run [''/d2g/scripts/metrics/test.py''] (Some ''task1'') None (Inr 0),
      Print ''Evaluating metrics for task task1'',
      Run [''/d2g/scripts/evaluate_task.py'', ''task1''] (Some ''task1'')
        (Some (example_environ @ example_task @ example_assignment)) (Inr 0),
      Print ''Creating artifact'',
      Run [''/d2g/scripts/create_artifact.sh''] None
        (Some (example_environ @ example_assignment)) (Inr 0),
      Run [''/d2g/scripts/print_results_student.py''] None
        (Some (example_environ @ example_assignment)) (Inr 0)]"

definition example_run :: "event list" where
  "example_run = example_steps @ [Run [''/d2g/scripts/revert_checkout.sh''] None None (Inr 0)]"

definition checkout_failed_run :: "event list" where
  "checkout_failed_run =
     [Print ''Loading assignment configuration'',
      LoadYaml ''assignment.yml'' None (Inr example_assignment),
      Print ''Checking out due date'',
      Run [''/d2g/scripts/checkout_due_date.sh'', ''2023-05-01''] None None (Inr 1),
      Print ''Failed to evaluate checkout commit''] @ map Print usage_lines"

definition assignment_missing_run :: "event list" where
  "assignment_missing_run =
     [Print ''Loading assignment configuration'',
      LoadYaml ''assignment.yml'' None (Inl FileNotFoundError),
      Print ''Failed to load assignment.yml''] @ map Print usage_lines"

subsection \<open>Reading the events of a run\<close>

text \<open>
  A child process that returned a code other than 0, and a configuration load that
  raised one of the two exceptions the script catches.
\<close>

fun nonzero_exit :: "event \<Rightarrow> bool" where
  "nonzero_exit (Run argv cwd env r) = (case r of Inl e \<Rightarrow> False | Inr rc \<Rightarrow> rc \<noteq> 0)"
| "nonzero_exit (Print msg) = False"
| "nonzero_exit (LoadYaml path prefix r) = False"

fun load_failed :: "event \<Rightarrow> bool" where
  "load_failed (LoadYaml path prefix r) = (case r of Inl e \<Rightarrow> config_error e | Inr conf \<Rightarrow> False)"
| "load_failed (Print msg) = False"
| "load_failed (Run argv cwd env r) = False"

definition failed :: "event \<Rightarrow> bool" where
  "failed ev = (nonzero_exit ev \<or> load_failed ev)"

text \<open>
  The message printed after a failure names the file for a failed load, and begins with
  ``Failed to '' for a child process.
\<close>

fun abort_message :: "event \<Rightarrow> string \<Rightarrow> bool" where
  "abort_message (LoadYaml path prefix r) msg = (msg = ''Failed to load '' @ path)"
| "abort_message (Run argv cwd env r) msg = (take 10 msg = ''Failed to '')"
| "abort_message (Print line) msg = False"

text \<open>
  A call \<open>subprocess.run([script_path])\<close> with neither \<open>cwd\<close> nor \<open>env\<close>: the form of the
  call in \<open>_revert_checkout\<close>, and of no other call of the script.
\<close>

fun bare_command :: "event \<Rightarrow> bool" where
  "bare_command (Run argv cwd env r) = (length argv = 1 \<and> cwd = None \<and> env = None)"
| "bare_command (Print msg) = False"
| "bare_command (LoadYaml path prefix r) = False"

text \<open>
  The run was aborted: it raised \<open>SystemExit(-1)\<close>, and its events end with the first
  failure, one message and the usage lines.
\<close>

definition aborted :: "py_exc + 'a \<Rightarrow> event list \<Rightarrow> bool" where
  "aborted r evs =
     (r = Inl (SystemExit (- 1)) \<and>
      (\<exists>pre ev msg. evs = pre @ ev # Print msg # map Print usage_lines \<and>
         failed ev \<and> abort_message ev msg \<and> \<not> list_ex failed pre))"

text \<open>
  What holds of every part of the pipeline before the revert step: a failure aborts, and
  no call has the form of the revert call.
\<close>

definition fail_fast :: "py_exc + 'a \<Rightarrow> event list \<Rightarrow> bool" where
  "fail_fast r evs = ((\<not> list_ex failed evs \<or> aborted r evs) \<and> \<not> list_ex bare_command evs)"

text \<open>\<open>P\<close> holds of the outcome and the events of \<open>m\<close>, in every world.\<close>

definition always :: "('w, 'a) io \<Rightarrow> (py_exc + 'a \<Rightarrow> event list \<Rightarrow> bool) \<Rightarrow> bool" where
  "always m P = (\<forall>w. P (fst (m w)) (snd (snd (m w))))"

text \<open>The call of \<open>_revert_checkout\<close>, whatever it answers.\<close>

definition revert_call :: "dict \<Rightarrow> event \<Rightarrow> bool" where
  "revert_call environ ev =
     (case map_of environ ''D2G_PATH'' of
        None \<Rightarrow> False
      | Some d2g \<Rightarrow>
          (case ev of
             Run argv cwd env r \<Rightarrow>
               argv = [path_join d2g ''scripts/revert_checkout.sh''] \<and> cwd = None \<and> env = None
           | Print msg \<Rightarrow> False
           | LoadYaml path prefix r \<Rightarrow> False))"


text \<open>
  The run got as far as the revert call, which is its last event; an exception of
  \<open>subprocess.run\<close> there is the outcome, a return code is not looked at.
\<close>

definition reverted :: "dict \<Rightarrow> py_exc + unit \<Rightarrow> event list \<Rightarrow> bool" where
  "reverted environ r evs =
     (\<exists>pre ev. evs = pre @ [ev] \<and> revert_call environ ev \<and>
        \<not> list_ex failed pre \<and> \<not> list_ex bare_command pre \<and>
        (case ev of
           Run argv cwd env res \<Rightarrow> (case res of Inl e \<Rightarrow> r = Inl e | Inr rc \<Rightarrow> r = Inr ())
         | Print msg \<Rightarrow> False
         | LoadYaml path prefix res \<Rightarrow> False))"

text \<open>The two ways \<open>_main\<close> ends: stopped before the revert call, or after it.\<close>

definition main_outcome :: "dict \<Rightarrow> py_exc + unit \<Rightarrow> event list \<Rightarrow> bool" where
  "main_outcome environ r evs =
     ((fail_fast r evs \<and> (\<exists>e. r = Inl e)) \<or> reverted environ r evs)"

text \<open>
  An event of a run in which every step succeeds, \<open>ac\<close> being the assignment
  configuration: each child process returns 0, the assignment configuration is loaded
  and has the three keys the script reads, and a task configuration is loaded, has its
  metrics key and shares no key with the assignment configuration.
\<close>

fun succeeded :: "dict \<Rightarrow> event \<Rightarrow> bool" where
  "succeeded ac (Print msg) = True"
| "succeeded ac (Run argv cwd env r) = (r = Inr 0)"
| "succeeded ac (LoadYaml path None r) =
     (r = Inr ac \<and> map_of ac ''ASSIGNMENT_DUE_DATE'' \<noteq> None \<and>
      map_of ac ''ASSIGNMENT_TEMPLATE_REPOSITORY'' \<noteq> None \<and>
      map_of ac ''ASSIGNMENT_TASKS'' \<noteq> None)"
| "succeeded ac (LoadYaml path (Some prefix) r) =
     (case r of
        Inl e \<Rightarrow> False
      | Inr tc \<Rightarrow> map_of tc (prefix @ ''_METRICS'') \<noteq> None \<and>
          \<not> list_ex (\<lambda>k. k \<in> set (map fst tc)) (map fst ac))"

text \<open>When every event satisfies \<open>ok\<close>, a value is returned, and it satisfies \<open>Q\<close>.\<close>

definition if_all :: "(event \<Rightarrow> bool) \<Rightarrow> ('a \<Rightarrow> bool) \<Rightarrow> py_exc + 'a \<Rightarrow> event list \<Rightarrow> bool" where
  "if_all ok Q r evs = (if list_all ok evs then (case r of Inl e \<Rightarrow> False | Inr x \<Rightarrow> Q x) else True)"

text \<open>The events of the steps of \<open>_main\<close> when they succeed.\<close>

definition assignment_loaded :: "dict \<Rightarrow> event list" where
  "assignment_loaded ac =
     [Print ''Loading assignment configuration'', LoadYaml ASSIGNMENT_FILE_NAME None (Inr ac)]"

definition checked_out :: "string \<Rightarrow> string \<Rightarrow> event list" where
  "checked_out d2g due_date =
     [Print ''Checking out due date'',
      Run [path_join d2g ''scripts/checkout_due_date.sh'', due_date] None None (Inr 0)]"

definition assignment_overridden :: "string \<Rightarrow> string \<Rightarrow> event list" where
  "assignment_overridden d2g repository =
     [Print ''Overriding repository for task None'',
      Run [path_join d2g ''scripts/override_repo.py'', ''-a'', ''-r'', repository] None None (Inr 0)]"

definition task_loaded :: "'w collaborators \<Rightarrow> string \<Rightarrow> dict \<Rightarrow> event list" where
  "task_loaded c taskname tc =
     [Print (''Loading task configuration for task '' @ taskname),
      LoadYaml (path_join taskname TASK_FILENAME) (Some (upper c taskname)) (Inr tc)]"

definition results_presented :: "string \<Rightarrow> dict \<Rightarrow> dict \<Rightarrow> event list" where
  "results_presented d2g environ ac =
     [Print ''Creating artifact'',
      Run [path_join d2g ''scripts/create_artifact.sh''] None (Some (dict_update environ ac)) (Inr 0),
      Run [path_join d2g ''scripts/print_results_student.py''] None
        (Some (dict_update environ ac)) (Inr 0)]"

text \<open>Variants of the example: the configurations are given, and the checkout may fail.\<close>

definition example_with :: "dict \<Rightarrow> dict \<Rightarrow> int \<Rightarrow> nat collaborators" where
  "example_with ac tc checkout_code =
     \<lparr>load_yaml = (\<lambda>w path prefix. if prefix = None then Inr ac else Inr tc),
      path_exists = (\<lambda>w path. False),
      subprocess_run = (\<lambda>w argv cwd env.
        if argv = [''/d2g/scripts/checkout_due_date.sh'', ''2023-05-01'']
        then (Inr checkout_code, Suc w) else (Inr 0, Suc w)),
      str_upper = (\<lambda>s. s)\<rparr>"

text \<open>Assignment configurations that lack one key each, and one with no task.\<close>

definition no_due_date :: dict where
  "no_due_date =
     [(''ASSIGNMENT_TEMPLATE_REPOSITORY'', ''https://example.org/template.git''),
      (''ASSIGNMENT_TASKS'', ''task1'')]"

definition no_repository :: dict where
  "no_repository = [(''ASSIGNMENT_DUE_DATE'', ''2023-05-01''), (''ASSIGNMENT_TASKS'', ''task1'')]"

definition no_tasks :: dict where
  "no_tasks =
     [(''ASSIGNMENT_DUE_DATE'', ''2023-05-01''),
      (''ASSIGNMENT_TEMPLATE_REPOSITORY'', ''https://example.org/template.git'')]"

definition empty_tasks :: dict where
  "empty_tasks =
     [(''ASSIGNMENT_DUE_DATE'', ''2023-05-01''),
      (''ASSIGNMENT_TEMPLATE_REPOSITORY'', ''https://example.org/template.git''),
      (''ASSIGNMENT_TASKS'', [])]"

text \<open>The example with no task, whose task configuration has an empty metrics value.\<close>

definition empty_lists :: "nat collaborators" where
  "empty_lists = example_with empty_tasks [(''_METRICS'', [])] 0"



fun is_load :: "event \<Rightarrow> bool" where
  "is_load (LoadYaml path prefix r) = True"
| "is_load (Print msg) = False"
| "is_load (Run argv cwd env r) = False"





text \<open>The events of the steps of \<open>_evaluate_task\<close> when they succeed.\<close>

definition task_overridden :: "string \<Rightarrow> string \<Rightarrow> string \<Rightarrow> dict \<Rightarrow> event list" where
  "task_overridden d2g taskname repository tc =
     [Print (''Overriding repository for task '' @ taskname),
      Run [path_join d2g ''scripts/override_repo.py'', ''-t'', taskname, ''-r'', repository]
        (Some taskname) (Some tc) (Inr 0)]"

definition metric_executed ::
  "'w collaborators \<Rightarrow> dict \<Rightarrow> string \<Rightarrow> string \<Rightarrow> event list \<Rightarrow> bool" where
  "metric_executed c environ taskname metric block =
     (\<exists>w argv. get_metric_script_path c environ metric w = (Inr argv, w, []) \<and>
        block = [Print (''Executing metric '' @ metric @ '' for task '' @ taskname),
                 Run argv (Some taskname) None (Inr 0)])"

definition task_evaluated :: "string \<Rightarrow> dict \<Rightarrow> string \<Rightarrow> dict \<Rightarrow> dict \<Rightarrow> event list" where
  "task_evaluated d2g environ taskname tc ac =
     [Print (''Evaluating metrics for task '' @ taskname),
      Run [path_join d2g ''scripts/evaluate_task.py'', taskname] (Some taskname)
        (Some (dict_update environ (tc @ ac))) (Inr 0)]"

section \<open>Properties\<close>

subsection \<open>Sequencing\<close>

lemma prepend_events_simps [simp]:
  "prepend_events t (r, w, t') = (r, w, t @ t')"
  "prepend_events [] res = res"
  "prepend_events t (prepend_events t' res) = prepend_events (t @ t') res"
  "fst (prepend_events t res) = fst res"
  "fst (snd (prepend_events t res)) = fst (snd res)"
  "snd (snd (prepend_events t res)) = t @ snd (snd res)"
  by (simp_all add: prepend_events_def split: prod.splits)

lemma bind_io_print [simp]:
  "bind_io (py_print msg) f w = prepend_events [Print msg] (f () w)"
  by (simp add: bind_io_def py_print_def)

lemma bind_io_return [simp]: "bind_io (return_io x) f w = f x w"
  by (simp add: bind_io_def return_io_def)

lemma bind_io_raise [simp]: "bind_io (raise_io e) f w = (Inl e, w, [])"
  by (simp add: bind_io_def raise_io_def)

lemma bind_io_getitem:
  "bind_io (getitem d k) f w =
     (case map_of d k of None \<Rightarrow> (Inl (KeyError k), w, []) | Some v \<Rightarrow> f v w)"
  by (simp add: bind_io_def getitem_def split: option.splits)

lemma bind_io_run:
  "bind_io (run c argv cwd env) f w =
     (case subprocess_run c w argv cwd env of
        (Inl e, w1) \<Rightarrow> (Inl e, w1, [Run argv cwd env (Inl e)])
      | (Inr rc, w1) \<Rightarrow> prepend_events [Run argv cwd env (Inr rc)] (f rc w1))"
  by (simp add: bind_io_def run_def split: prod.splits sum.splits)

lemma print_error_and_exit_eq [simp]:
  "print_error_and_exit msg w = (Inl (SystemExit (- 1)), w, Print msg # map Print usage_lines)"
  by (simp add: print_error_and_exit_def bind_io_def print_usage_def raise_io_def py_print_def)

lemma usage_printed:
  "map Print usage_lines =
     [Print ''usage: deploy_to_grading.py'',
      Print ''       Executes the Deploy-to-Grading pipeline. Make sure to'',
      Print ''       execute the script inside an assignment folder and'',
      Print ''       that the D2G_PATH env variable is set.'']"
  by (simp add: usage_lines_def)

lemma upper_ascii: "list_all (\<lambda>ch. (of_char ch :: nat) < 128) s \<Longrightarrow> upper c s = map upper_char s"
  by (simp add: upper_def)

lemma upper_not_ascii:
  "\<not> list_all (\<lambda>ch. (of_char ch :: nat) < 128) s \<Longrightarrow> upper c s = str_upper c s"
  by (simp add: upper_def)

lemma bind_io_unit_return [simp]:
  "bind_io m (\<lambda>_. return_io ()) w = (m w :: (py_exc + unit) \<times> 'w \<times> event list)"
  by (simp add: bind_io_def return_io_def split: prod.splits sum.splits)

lemma events_bind_prefix:
  assumes "snd (snd (m w)) = p @ rest"
  shows "\<exists>rest'. snd (snd (bind_io m f w)) = p @ rest'"
  using assms by (auto simp: bind_io_def split: prod.splits sum.splits)

subsection \<open>Metric resolution\<close>

lemma path_join_metrics:
  "path_join d (''scripts/metrics/'' @ metric) = path_join d ''scripts/metrics/'' @ metric"
  by (simp add: path_join_def)

lemma get_metric_script_path_resolved:
  assumes "map_of environ ''D2G_PATH'' = Some d2g"
  shows "get_metric_script_path c environ metric w =
           (Inr (metric_resolution_spec (path_exists c w)
                   (path_join d2g ''scripts/metrics/'') metric), w, [])"
  using assms unfolding get_metric_script_path_def bind_io_getitem path_join_metrics
  by (simp add: metric_resolution_spec_def Let_def)

text \<open>
  Claim C3. With \<open>D2G_PATH\<close> set, the command of a metric is decided by the existence of
  two files of the directory \<open>scripts/metrics\<close> under \<open>D2G_PATH\<close>, and by nothing else:
  \<open><metric>.sh\<close> if it exists, otherwise \<open><metric>.py\<close> if it exists, otherwise
  \<open>./gradlew <metric>\<close>. The lookup reads the world as it is at the call, leaves it as
  it is and causes no event, so nothing is remembered from one call to the next.
\<close>

theorem metric_resolution:
  assumes "map_of environ ''D2G_PATH'' = Some d2g"
  shows "get_metric_script_path c environ metric w =
           (Inr (metric_resolution_spec (path_exists c w)
                   (path_join d2g ''scripts/metrics/'') metric), w, [])"
  using assms by (rule get_metric_script_path_resolved)

theorem metric_resolution_witness:
  "map_of example_environ ''D2G_PATH'' = Some ''/d2g'' \<and>
   get_metric_script_path all_succeed example_environ ''test'' 0 =
     (Inr [''/d2g/scripts/metrics/test.py''], 0, [])"
  using metric_resolution [of example_environ "''/d2g''" all_succeed "''test''" 0]
  by (simp add: example_environ_def all_succeed_def metric_resolution_spec_def path_join_def)

subsection \<open>A failure aborts the part of the pipeline it occurs in\<close>

lemma alwaysD: "always m P \<Longrightarrow> m w = (r, w', evs) \<Longrightarrow> P r evs"
  by (auto simp: always_def dest: spec [of _ w])

lemma failed_simps [simp]:
  "failed (Print msg) = False"
  "failed (LoadYaml path prefix r) = (case r of Inl e \<Rightarrow> config_error e | Inr conf \<Rightarrow> False)"
  "failed (Run argv cwd env res) = (case res of Inl e \<Rightarrow> False | Inr rc \<Rightarrow> rc \<noteq> 0)"
  by (simp_all add: failed_def)

lemma usage_not_failed [simp]: "\<not> list_ex failed (map Print ls)" "\<not> list_ex bare_command (map Print ls)"
  by (induction ls) simp_all

lemma aborted_prepend: "\<not> list_ex failed t1 \<Longrightarrow> aborted r t2 \<Longrightarrow> aborted r (t1 @ t2)"
  unfolding aborted_def
  apply (elim conjE exE)
  subgoal for pre ev msg
    apply (intro conjI, assumption)
    apply (rule exI [of _ "t1 @ pre"], rule exI [of _ ev], rule exI [of _ msg])
    apply simp
    done
  done

lemma aborted_Inr [simp]: "\<not> aborted (Inr x) evs"
  by (simp add: aborted_def)

lemma fail_fast_prepend:
  "\<not> list_ex failed t1 \<Longrightarrow> \<not> list_ex bare_command t1 \<Longrightarrow> fail_fast r t2 \<Longrightarrow> fail_fast r (t1 @ t2)"
  unfolding fail_fast_def by (auto intro: aborted_prepend)

lemma fail_fast_Inr: "fail_fast (Inr x) evs \<Longrightarrow> \<not> list_ex failed evs \<and> \<not> list_ex bare_command evs"
  by (simp add: fail_fast_def)

lemma always_bind:
  assumes m: "always m fail_fast" and f: "\<And>x. always (f x) fail_fast"
  shows "always (bind_io m f) fail_fast"
  unfolding always_def
proof
  fix w
  obtain r w1 t1 where mw: "m w = (r, w1, t1)" by (cases "m w")
  have ff1: "fail_fast r t1" using alwaysD [OF m mw] .
  show "fail_fast (fst (bind_io m f w)) (snd (snd (bind_io m f w)))"
  proof (cases r)
    case (Inl e)
    then show ?thesis using ff1 mw by (simp add: bind_io_def fail_fast_def aborted_def)
  next
    case (Inr x)
    obtain r2 w2 t2 where fw: "f x w1 = (r2, w2, t2)" by (cases "f x w1")
    have "fail_fast r2 t2" using alwaysD [OF f fw] .
    then have "fail_fast r2 (t1 @ t2)"
      using fail_fast_Inr [of x t1] ff1 Inr by (intro fail_fast_prepend) simp_all
    then show ?thesis using Inr mw fw by (simp add: bind_io_def)
  qed
qed

lemma always_print [simp]: "always (py_print msg) fail_fast"
  by (simp add: always_def py_print_def fail_fast_def)

lemma always_return [simp]: "always (return_io x) fail_fast"
  by (simp add: always_def return_io_def fail_fast_def)

lemma always_getitem [simp]: "always (getitem d k) fail_fast"
  by (simp add: always_def getitem_def fail_fast_def split: option.splits)

lemma always_py_dict [simp]: "always (py_dict d kws) fail_fast"
  by (simp add: always_def py_dict_def fail_fast_def split: sum.splits)

lemma always_get_metric [simp]: "always (get_metric_script_path c environ metric) fail_fast"
  by (simp add: always_def get_metric_script_path_def bind_io_getitem fail_fast_def Let_def
      split: option.splits)

lemma always_run_checked:
  assumes k: "always k fail_fast" and shape: "length argv \<noteq> 1 \<or> cwd \<noteq> None \<or> env \<noteq> None"
    and msg: "take 10 msg = ''Failed to ''"
  shows "always (bind_io (run c argv cwd env)
           (\<lambda>returncode. if returncode \<noteq> 0 then print_error_and_exit msg else k)) fail_fast"
  unfolding always_def
proof
  fix w
  let ?m = "bind_io (run c argv cwd env)
           (\<lambda>returncode. if returncode \<noteq> 0 then print_error_and_exit msg else k)"
  obtain r w1 where sr: "subprocess_run c w argv cwd env = (r, w1)"
    by (cases "subprocess_run c w argv cwd env")
  show "fail_fast (fst (?m w)) (snd (snd (?m w)))"
  proof (cases r)
    case (Inl e)
    then show ?thesis using sr shape by (auto simp add: bind_io_run fail_fast_def)
  next
    case (Inr rc)
    show ?thesis
    proof (cases "rc = 0")
      case True
      have "fail_fast (fst (k w1)) (snd (snd (k w1)))" using k by (simp add: always_def)
      then have "fail_fast (fst (k w1)) ([Run argv cwd env (Inr 0)] @ snd (snd (k w1)))"
        using shape by (intro fail_fast_prepend) auto
      then show ?thesis using sr Inr True by (simp add: bind_io_run)
    next
      case False
      have "aborted (Inl (SystemExit (- 1)) :: py_exc + 'b)
              ([] @ Run argv cwd env (Inr rc) # Print msg # map Print usage_lines)"
        unfolding aborted_def using False msg by (intro conjI exI) auto
      then show ?thesis using sr Inr False shape by (auto simp add: bind_io_run fail_fast_def)
    qed
  qed
qed

lemma always_load:
  "always (try_except (conf_load c path prefix) config_error
             (print_error_and_exit (''Failed to load '' @ path))) fail_fast"
  unfolding always_def
proof
  fix w
  let ?m = "try_except (conf_load c path prefix) config_error
             (print_error_and_exit (''Failed to load '' @ path))"
  show "fail_fast (fst (?m w)) (snd (snd (?m w)))"
  proof (cases "load_yaml c w path prefix")
    case (Inr conf)
    then show ?thesis by (simp add: try_except_def conf_load_def fail_fast_def)
  next
    case (Inl e)
    show ?thesis
    proof (cases "config_error e")
      case False
      then show ?thesis using Inl by (simp add: try_except_def conf_load_def fail_fast_def)
    next
      case True
      have "aborted (Inl (SystemExit (- 1)) :: py_exc + dict)
              ([] @ LoadYaml path prefix (Inl e) # Print (''Failed to load '' @ path)
                # map Print usage_lines)"
        unfolding aborted_def using True by (intro conjI exI) auto
      then show ?thesis using Inl True by (simp add: try_except_def conf_load_def fail_fast_def)
    qed
  qed
qed

lemmas always_steps = always_bind always_run_checked always_load

lemma always_load_assignment_config: "always (load_assignment_config c) fail_fast"
  unfolding load_assignment_config_def by (intro always_steps always_print)

lemma always_load_task_config: "always (load_task_config c taskname) fail_fast"
  unfolding load_task_config_def by (intro always_steps always_print)

lemma always_checkout_due_date: "always (checkout_due_date c environ due_date) fail_fast"
  unfolding checkout_due_date_def
  by (intro always_steps always_print always_getitem always_return; simp)

lemma always_override_repo:
  "always (override_repo c environ taskname repository task_configuration) fail_fast"
  unfolding override_repo_def
  by (cases taskname; cases "the taskname = []")
     (simp_all, (intro always_steps always_print always_getitem always_return; simp)+)

lemma always_execute_metrics_loop: "always (execute_metrics_loop c environ taskname metrics) fail_fast"
proof (induction metrics)
  case Nil
  show ?case by simp
next
  case (Cons metric metrics)
  show ?case
    unfolding execute_metrics_loop.simps
    by (intro always_bind always_print always_get_metric always_run_checked Cons; simp)
qed

lemma always_execute_metrics: "always (execute_metrics c environ taskname metrics) fail_fast"
  unfolding execute_metrics_def by (rule always_execute_metrics_loop)

lemma always_evaluate_metrics:
  "always (evaluate_metrics c environ taskname metrics tc ac) fail_fast"
  unfolding evaluate_metrics_def
  by (intro always_steps always_print always_getitem always_return always_py_dict; simp)

lemma always_create_artifact: "always (create_artifact c environ ac) fail_fast"
  unfolding create_artifact_def
  by (intro always_steps always_print always_getitem always_return always_py_dict; simp)

lemma always_present_results: "always (present_results c environ ac) fail_fast"
  unfolding present_results_def
  by (intro always_steps always_create_artifact always_getitem always_return always_py_dict; simp)

lemma always_evaluate_task: "always (evaluate_task c environ taskname ac) fail_fast"
  unfolding evaluate_task_def
  by (intro always_bind always_load_task_config always_getitem always_override_repo
      always_execute_metrics always_evaluate_metrics)

lemma always_evaluate_tasks: "always (evaluate_tasks c environ tasks ac) fail_fast"
proof (induction tasks)
  case Nil
  show ?case by simp
next
  case (Cons task tasks)
  show ?case
    unfolding evaluate_tasks.simps
    by (intro always_bind always_evaluate_task Cons)
qed

subsection \<open>The two ways a run ends\<close>


lemma always_revert_checkout: "always (revert_checkout c environ) (main_outcome environ)"
  unfolding always_def
proof
  fix w
  show "main_outcome environ (fst (revert_checkout c environ w))
          (snd (snd (revert_checkout c environ w)))"
  proof (cases "map_of environ ''D2G_PATH''")
    case None
    then show ?thesis
      by (simp add: revert_checkout_def bind_io_getitem main_outcome_def fail_fast_def)
  next
    case (Some d2g)
    let ?argv = "[path_join d2g ''scripts/revert_checkout.sh'']"
    obtain res w1 where sr: "subprocess_run c w ?argv None None = (res, w1)"
      by (cases "subprocess_run c w ?argv None None")
    have "reverted environ (case res of Inl e \<Rightarrow> Inl e | Inr rc \<Rightarrow> Inr ())
            ([] @ [Run ?argv None None res])"
      unfolding reverted_def
      by (intro exI conjI, rule refl) (simp_all add: revert_call_def Some split: sum.splits)
    then show ?thesis using Some sr
      by (cases res) (simp_all add: revert_checkout_def bind_io_getitem bind_io_run main_outcome_def
          return_io_def)
  qed
qed

lemma reverted_prepend:
  "\<not> list_ex failed t1 \<Longrightarrow> \<not> list_ex bare_command t1 \<Longrightarrow> reverted environ r t2 \<Longrightarrow>
   reverted environ r (t1 @ t2)"
  unfolding reverted_def
  apply (elim exE conjE)
  subgoal for pre ev
    apply (rule exI [of _ "t1 @ pre"], rule exI [of _ ev])
    apply simp
    done
  done

lemma main_outcome_prepend:
  "\<not> list_ex failed t1 \<Longrightarrow> \<not> list_ex bare_command t1 \<Longrightarrow> main_outcome environ r t2 \<Longrightarrow>
   main_outcome environ r (t1 @ t2)"
  unfolding main_outcome_def by (auto intro: reverted_prepend fail_fast_prepend)

lemma always_bind_main:
  assumes m: "always m fail_fast" and f: "\<And>x. always (f x) (main_outcome environ)"
  shows "always (bind_io m f) (main_outcome environ)"
  unfolding always_def
proof
  fix w
  obtain r w1 t1 where mw: "m w = (r, w1, t1)" by (cases "m w")
  have ff1: "fail_fast r t1" using alwaysD [OF m mw] .
  show "main_outcome environ (fst (bind_io m f w)) (snd (snd (bind_io m f w)))"
  proof (cases r)
    case (Inl e)
    then show ?thesis using ff1 mw
      by (simp add: bind_io_def main_outcome_def fail_fast_def aborted_def)
  next
    case (Inr x)
    obtain r2 w2 t2 where fw: "f x w1 = (r2, w2, t2)" by (cases "f x w1")
    have "main_outcome environ r2 t2" using alwaysD [OF f fw] .
    then have "main_outcome environ r2 (t1 @ t2)"
      using fail_fast_Inr [of x t1] ff1 Inr by (intro main_outcome_prepend) simp_all
    then show ?thesis using Inr mw fw by (simp add: bind_io_def)
  qed
qed

lemma always_main: "always (main c environ) (main_outcome environ)"
  unfolding main_def
  by (intro always_bind_main always_load_assignment_config always_getitem
      always_checkout_due_date always_override_repo always_evaluate_tasks
      always_present_results always_revert_checkout)

lemma main_ends:
  assumes "main c environ w = (r, w', evs)"
  shows "(aborted r evs \<and> \<not> list_ex bare_command evs) \<or>
         (\<not> list_ex failed evs \<and> \<not> list_ex bare_command evs \<and> (\<exists>e. r = Inl e)) \<or>
         reverted environ r evs"
  using alwaysD [OF always_main assms] by (auto simp: main_outcome_def fail_fast_def)

lemma failure_unique:
  assumes "pre @ ev # post = pre' @ ev' # post'" "failed ev"
    "\<not> list_ex failed pre'" "\<not> list_ex failed post'"
  shows "pre = pre' \<and> ev = ev' \<and> post = post'"
  using assms
proof (induction pre arbitrary: pre')
  case Nil
  then show ?case by (cases pre') auto
next
  case (Cons x xs)
  show ?case
  proof (cases pre')
    case Nil
    then have "post' = xs @ ev # post" using Cons.prems(1) by simp
    then show ?thesis using Cons.prems by simp
  next
    case (Cons y ys)
    then show ?thesis using Cons.IH [of ys] Cons.prems by simp
  qed
qed

lemma exit_status_abort [simp]: "exit_status (Inl (SystemExit (- 1))) = 255"
  by (simp add: exit_status_def)

lemma failure_aborts:
  assumes run: "main c environ w = (r, w', pre @ ev # post)"
    and ev: "failed ev" "\<not> revert_call environ ev"
  shows "r = Inl (SystemExit (- 1)) \<and>
         (\<exists>msg. abort_message ev msg \<and> post = Print msg # map Print usage_lines) \<and>
         \<not> list_ex bare_command (pre @ ev # post)"
proof -
  consider (a) "aborted r (pre @ ev # post)" "\<not> list_ex bare_command (pre @ ev # post)"
    | (b) "\<not> list_ex failed (pre @ ev # post)"
    | (c) "reverted environ r (pre @ ev # post)"
    using main_ends [OF run] by blast
  then show ?thesis
  proof cases
    case a
    then obtain pre' ev' msg where r: "r = Inl (SystemExit (- 1))"
      and eq: "pre @ ev # post = pre' @ ev' # Print msg # map Print usage_lines"
      and ev': "abort_message ev' msg" "\<not> list_ex failed pre'"
      unfolding aborted_def by blast
    have "pre = pre' \<and> ev = ev' \<and> post = Print msg # map Print usage_lines"
      using eq ev(1) ev'(2) by (intro failure_unique) simp_all
    then show ?thesis using r ev' a(2) by blast
  next
    case b
    then show ?thesis using ev(1) by simp
  next
    case c
    then obtain pre' ev' where eq: "pre @ ev # post = pre' @ ev' # []"
      and ev': "revert_call environ ev'" "\<not> list_ex failed pre'"
      unfolding reverted_def by auto
    have "pre = pre' \<and> ev = ev' \<and> post = []"
      using eq ev(1) ev'(2) by (intro failure_unique) simp_all
    then show ?thesis using ev(2) ev'(1) by simp
  qed
qed

subsection \<open>A run in which every step succeeds\<close>

lemma if_all_bind:
  assumes m: "always m (if_all ok Q)" and f: "\<And>x. Q x \<Longrightarrow> always (f x) (if_all ok Q')"
  shows "always (bind_io m f) (if_all ok Q')"
  unfolding always_def
proof
  fix w
  obtain r w1 t1 where mw: "m w = (r, w1, t1)" by (cases "m w")
  have h1: "if_all ok Q r t1" using alwaysD [OF m mw] .
  show "if_all ok Q' (fst (bind_io m f w)) (snd (snd (bind_io m f w)))"
  proof (cases r)
    case (Inl e)
    then show ?thesis using h1 mw by (simp add: bind_io_def if_all_def split: if_splits)
  next
    case (Inr x)
    obtain r2 w2 t2 where fw: "f x w1 = (r2, w2, t2)" by (cases "f x w1")
    show ?thesis
    proof (cases "list_all ok t1")
      case True
      then have "Q x" using h1 Inr by (simp add: if_all_def)
      then have "if_all ok Q' r2 t2" using alwaysD [OF f fw] by simp
      then show ?thesis using Inr mw fw True by (simp add: bind_io_def if_all_def)
    next
      case False
      then show ?thesis using Inr mw fw by (simp add: bind_io_def if_all_def)
    qed
  qed
qed

lemma if_all_weaken: "always m (if_all ok Q) \<Longrightarrow> always m (if_all ok (\<lambda>_. True))"
  by (auto simp: always_def if_all_def split: sum.splits if_splits)

lemma if_all_print: "always (py_print msg) (if_all ok (\<lambda>_. True))"
  by (simp add: always_def py_print_def if_all_def)

lemma if_all_return: "always (return_io x) (if_all ok (\<lambda>_. True))"
  by (simp add: always_def return_io_def if_all_def)

lemma if_all_getitem: "map_of d k \<noteq> None \<Longrightarrow> always (getitem d k) (if_all ok (\<lambda>_. True))"
  by (auto simp add: always_def getitem_def if_all_def)

lemma if_all_py_dict1: "always (py_dict environ [ac]) (if_all ok (\<lambda>_. True))"
  by (simp add: always_def py_dict_def if_all_def list_ex_iff)

lemma if_all_py_dict2:
  "\<not> list_ex (\<lambda>k. k \<in> set (map fst tc)) (map fst ac) \<Longrightarrow>
   always (py_dict environ [tc, ac]) (if_all ok (\<lambda>_. True))"
  by (simp add: always_def py_dict_def if_all_def list_ex_iff)

lemma if_all_get_metric:
  "map_of environ ''D2G_PATH'' \<noteq> None \<Longrightarrow>
   always (get_metric_script_path c environ metric) (if_all ok (\<lambda>_. True))"
  by (auto simp add: always_def get_metric_script_path_def bind_io_getitem if_all_def Let_def)

lemma if_all_run_checked:
  assumes k: "always k (if_all (succeeded ac) Q)"
  shows "always (bind_io (run c argv cwd env)
           (\<lambda>returncode. if returncode \<noteq> 0 then print_error_and_exit msg else k))
           (if_all (succeeded ac) Q)"
  unfolding always_def
proof
  fix w
  let ?m = "bind_io (run c argv cwd env)
           (\<lambda>returncode. if returncode \<noteq> 0 then print_error_and_exit msg else k)"
  obtain r w1 where sr: "subprocess_run c w argv cwd env = (r, w1)"
    by (cases "subprocess_run c w argv cwd env")
  have kw: "if_all (succeeded ac) Q (fst (k w1)) (snd (snd (k w1)))"
    using k by (simp add: always_def)
  show "if_all (succeeded ac) Q (fst (?m w)) (snd (snd (?m w)))"
  proof (cases "r = Inr 0")
    case True
    then show ?thesis using sr kw by (simp add: bind_io_run if_all_def)
  next
    case False
    then show ?thesis using sr by (cases r) (simp_all add: bind_io_run if_all_def)
  qed
qed

lemma if_all_load_assignment:
  "always (load_assignment_config c)
     (if_all (succeeded ac) (\<lambda>x. x = ac \<and> map_of ac ''ASSIGNMENT_DUE_DATE'' \<noteq> None \<and>
      map_of ac ''ASSIGNMENT_TEMPLATE_REPOSITORY'' \<noteq> None \<and>
      map_of ac ''ASSIGNMENT_TASKS'' \<noteq> None))"
  by (auto simp add: always_def load_assignment_config_def try_except_def conf_load_def if_all_def
      split: sum.splits)

lemma if_all_load_task:
  "always (load_task_config c taskname)
     (if_all (succeeded ac) (\<lambda>tc. map_of tc (upper c taskname @ ''_METRICS'') \<noteq> None \<and>
          \<not> list_ex (\<lambda>k. k \<in> set (map fst tc)) (map fst ac)))"
  by (auto simp add: always_def load_task_config_def try_except_def conf_load_def if_all_def
      split: sum.splits)

lemmas if_all_steps = if_all_bind [where Q = "\<lambda>_. True"] if_all_print if_all_return if_all_getitem
  if_all_py_dict1 if_all_py_dict2 if_all_get_metric if_all_run_checked

lemma if_all_checkout:
  "map_of environ ''D2G_PATH'' \<noteq> None \<Longrightarrow>
   always (checkout_due_date c environ due_date) (if_all (succeeded ac) (\<lambda>_. True))"
  unfolding checkout_due_date_def by (intro if_all_steps)

lemma if_all_override:
  "map_of environ ''D2G_PATH'' \<noteq> None \<Longrightarrow>
   always (override_repo c environ taskname repository tc) (if_all (succeeded ac) (\<lambda>_. True))"
  unfolding override_repo_def
  by (cases taskname; cases "the taskname = []") (simp_all, (intro if_all_steps, simp)+)

lemma if_all_execute_metrics_loop:
  assumes "map_of environ ''D2G_PATH'' \<noteq> None"
  shows "always (execute_metrics_loop c environ taskname metrics) (if_all (succeeded ac) (\<lambda>_. True))"
proof (induction metrics)
  case Nil
  show ?case by (simp add: if_all_return)
next
  case (Cons metric metrics)
  show ?case
    unfolding execute_metrics_loop.simps by (intro if_all_steps Cons assms)
qed

lemma if_all_evaluate_metrics:
  "map_of environ ''D2G_PATH'' \<noteq> None \<Longrightarrow>
   \<not> list_ex (\<lambda>k. k \<in> set (map fst tc)) (map fst ac) \<Longrightarrow>
   always (evaluate_metrics c environ taskname metrics tc ac) (if_all (succeeded ac) (\<lambda>_. True))"
  unfolding evaluate_metrics_def by (intro if_all_steps)

lemma if_all_present_results:
  "map_of environ ''D2G_PATH'' \<noteq> None \<Longrightarrow>
   always (present_results c environ ac) (if_all (succeeded ac') (\<lambda>_. True))"
  unfolding present_results_def create_artifact_def by (intro if_all_steps)

lemma if_all_revert:
  "map_of environ ''D2G_PATH'' \<noteq> None \<Longrightarrow>
   always (revert_checkout c environ) (if_all (succeeded ac) (\<lambda>_. True))"
  by (auto simp add: always_def revert_checkout_def bind_io_getitem bind_io_run if_all_def
      return_io_def split: prod.splits sum.splits)

lemma if_all_evaluate_task:
  assumes d2g: "map_of environ ''D2G_PATH'' \<noteq> None"
    and repo: "map_of ac ''ASSIGNMENT_TEMPLATE_REPOSITORY'' \<noteq> None"
  shows "always (evaluate_task c environ taskname ac) (if_all (succeeded ac) (\<lambda>_. True))"
  unfolding evaluate_task_def
proof (rule if_all_bind [OF if_all_load_task], elim conjE)
  fix tc :: dict
  assume tc: "map_of tc (upper c taskname @ ''_METRICS'') \<noteq> None"
    "\<not> list_ex (\<lambda>k. k \<in> set (map fst tc)) (map fst ac)"
  show "always
          (bind_io (getitem ac ''ASSIGNMENT_TEMPLATE_REPOSITORY'')
            (\<lambda>repository.
                bind_io
                 (override_repo c environ (Some taskname) repository (Some tc))
                 (\<lambda>_. bind_io (getitem tc (upper c taskname @ ''_METRICS''))
                       (\<lambda>metrics.
                           bind_io (execute_metrics c environ taskname metrics)
                            (\<lambda>_. bind_io (getitem tc (upper c taskname @ ''_METRICS''))
                                  (\<lambda>metrics'. evaluate_metrics c environ taskname metrics' tc ac))))))
          (if_all (succeeded ac) (\<lambda>_. True))"
    unfolding execute_metrics_def
    by (intro if_all_steps if_all_override if_all_execute_metrics_loop if_all_evaluate_metrics
        d2g repo tc)
qed

lemma if_all_evaluate_tasks:
  assumes d2g: "map_of environ ''D2G_PATH'' \<noteq> None"
    and repo: "map_of ac ''ASSIGNMENT_TEMPLATE_REPOSITORY'' \<noteq> None"
  shows "always (evaluate_tasks c environ tasks ac) (if_all (succeeded ac) (\<lambda>_. True))"
proof (induction tasks)
  case Nil
  show ?case by (simp add: if_all_return)
next
  case (Cons task tasks)
  show ?case
    unfolding evaluate_tasks.simps by (intro if_all_steps if_all_evaluate_task Cons assms)
qed

lemma if_all_main:
  assumes d2g: "map_of environ ''D2G_PATH'' \<noteq> None"
  shows "always (main c environ) (if_all (succeeded ac) (\<lambda>_. True))"
  unfolding main_def
proof (rule if_all_bind [OF if_all_load_assignment], elim conjE)
  fix x
  assume x: "x = ac" and keys: "map_of ac ''ASSIGNMENT_DUE_DATE'' \<noteq> None"
    "map_of ac ''ASSIGNMENT_TEMPLATE_REPOSITORY'' \<noteq> None" "map_of ac ''ASSIGNMENT_TASKS'' \<noteq> None"
  show "always
          (bind_io (getitem x ''ASSIGNMENT_DUE_DATE'')
            (\<lambda>due_date.
                bind_io (checkout_due_date c environ due_date)
                 (\<lambda>_. bind_io (getitem x ''ASSIGNMENT_TEMPLATE_REPOSITORY'')
                       (\<lambda>repository.
                           bind_io (override_repo c environ None repository None)
                            (\<lambda>_. bind_io (getitem x ''ASSIGNMENT_TASKS'')
                                  (\<lambda>tasks.
                                      bind_io (evaluate_tasks c environ (py_split CHR '' '' tasks) x)
                                       (\<lambda>_. bind_io (present_results c environ x)
                                             (\<lambda>_. revert_checkout c environ))))))))
          (if_all (succeeded ac) (\<lambda>_. True))"
    unfolding x
    by (intro if_all_steps if_all_checkout if_all_override if_all_evaluate_tasks
        if_all_present_results if_all_revert d2g keys)
qed

lemma all_succeeded_returns:
  assumes "main c environ w = (r, w', evs)" "map_of environ ''D2G_PATH'' \<noteq> None"
    "list_all (succeeded ac) evs"
  shows "r = Inr ()"
  using alwaysD [OF if_all_main [OF assms(2)] assms(1), of ac] assms(3)
  by (simp add: if_all_def split: sum.splits)

subsection \<open>The example runs\<close>

lemma main_all_succeed: "main all_succeed example_environ 0 = (Inr (), 9, example_run)"
  by code_simp

lemma main_checkout_fails:
  "main checkout_fails example_environ 0 = (Inl (SystemExit (- 1)), 1, checkout_failed_run)"
  by code_simp

lemma main_assignment_missing:
  "main assignment_missing example_environ 0 = (Inl (SystemExit (- 1)), 0, assignment_missing_run)"
  by code_simp



subsection \<open>Fail-fast\<close>

text \<open>
  Claim C2. In a run of \<open>_main\<close>, a child process other than the revert call that
  returns a code other than 0 is followed by one message, which begins with
  ``Failed to '', and the four usage lines, and by nothing else, and the process ends by
  \<open>exit(-1)\<close>, a status other than 0. When \<open>D2G_PATH\<close> is set and every step of the run
  succeeds (each child returns 0, each configuration is loaded and has the keys the
  script reads), \<open>_main\<close> returns and the exit status is 0.
\<close>

theorem step_failure_aborts:
  assumes "main c environ w = (r, w', evs)"
  shows "(\<forall>pre ev post. evs = pre @ ev # post \<and> nonzero_exit ev \<and> \<not> revert_call environ ev \<longrightarrow>
            r = Inl (SystemExit (- 1)) \<and> exit_status r \<noteq> 0 \<and>
            (\<exists>reason. post =
               [Print (''Failed to '' @ reason),
                Print ''usage: deploy_to_grading.py'',
                Print ''       Executes the Deploy-to-Grading pipeline. Make sure to'',
                Print ''       execute the script inside an assignment folder and'',
                Print ''       that the D2G_PATH env variable is set.''])) \<and>
         (map_of environ ''D2G_PATH'' \<noteq> None \<and> list_all (succeeded ac) evs \<longrightarrow>
            r = Inr () \<and> exit_status r = 0)"
proof (intro conjI allI impI)
  fix pre ev post
  assume h: "evs = pre @ ev # post \<and> nonzero_exit ev \<and> \<not> revert_call environ ev"
  then have run: "main c environ w = (r, w', pre @ ev # post)" using assms by simp
  have "failed ev" using h by (simp add: failed_def)
  then have "r = Inl (SystemExit (- 1)) \<and>
         (\<exists>msg. abort_message ev msg \<and> post = Print msg # map Print usage_lines) \<and>
         \<not> list_ex bare_command (pre @ ev # post)"
    using failure_aborts [OF run] h by blast
  then obtain msg where r: "r = Inl (SystemExit (- 1))" and msg: "abort_message ev msg"
    and post: "post = Print msg # map Print usage_lines"
    by blast
  obtain argv cwd env res where "ev = Run argv cwd env res" using h by (cases ev) simp_all
  then have t: "take 10 msg = ''Failed to ''" using msg by simp
  have m: "''Failed to '' @ drop 10 msg = msg"
    by (subst t [symmetric]) (rule append_take_drop_id)
  have p: "post =
               [Print msg,
                Print ''usage: deploy_to_grading.py'',
                Print ''       Executes the Deploy-to-Grading pipeline. Make sure to'',
                Print ''       execute the script inside an assignment folder and'',
                Print ''       that the D2G_PATH env variable is set.'']"
    using post by (simp add: usage_printed)
  show "\<exists>reason. post =
               [Print (''Failed to '' @ reason),
                Print ''usage: deploy_to_grading.py'',
                Print ''       Executes the Deploy-to-Grading pipeline. Make sure to'',
                Print ''       execute the script inside an assignment folder and'',
                Print ''       that the D2G_PATH env variable is set.'']"
  proof (rule exI)
    show "post =
               [Print (''Failed to '' @ drop 10 msg),
                Print ''usage: deploy_to_grading.py'',
                Print ''       Executes the Deploy-to-Grading pipeline. Make sure to'',
                Print ''       execute the script inside an assignment folder and'',
                Print ''       that the D2G_PATH env variable is set.'']"
      by (subst m) (rule p)
  qed
  show "r = Inl (SystemExit (- 1))" by (rule r)
  show "exit_status r \<noteq> 0" using r by simp
next
  assume h: "map_of environ ''D2G_PATH'' \<noteq> None \<and> list_all (succeeded ac) evs"
  then show "r = Inr ()" using all_succeeded_returns [OF assms] by blast
  then show "exit_status r = 0" by (simp add: exit_status_def)
qed

theorem step_failure_aborts_witness:
  "main checkout_fails example_environ 0 =
     (Inl (SystemExit (- 1)), 1,
      [Print ''Loading assignment configuration'',
       LoadYaml ''assignment.yml'' None (Inr example_assignment),
       Print ''Checking out due date'']
      @ Run [''/d2g/scripts/checkout_due_date.sh'', ''2023-05-01''] None None (Inr 1)
      # [Print (''Failed to '' @ ''evaluate checkout commit''),
         Print ''usage: deploy_to_grading.py'',
         Print ''       Executes the Deploy-to-Grading pipeline. Make sure to'',
         Print ''       execute the script inside an assignment folder and'',
         Print ''       that the D2G_PATH env variable is set.'']) \<and>
   nonzero_exit (Run [''/d2g/scripts/checkout_due_date.sh'', ''2023-05-01''] None None (Inr 1)) \<and>
   \<not> revert_call example_environ
       (Run [''/d2g/scripts/checkout_due_date.sh'', ''2023-05-01''] None None (Inr 1)) \<and>
   exit_status (Inl (SystemExit (- 1))) \<noteq> 0 \<and>
   main all_succeed example_environ 0 = (Inr (), 9, example_run) \<and>
   map_of example_environ ''D2G_PATH'' \<noteq> None \<and>
   list_all (succeeded example_assignment) example_run \<and>
   exit_status (Inr ()) = 0"
proof -
  have ok: "map_of example_environ ''D2G_PATH'' \<noteq> None \<and>
            list_all (succeeded example_assignment) example_run"
    by (simp add: example_environ_def example_run_def example_steps_def example_assignment_def
        example_task_def)
  have shape: "checkout_failed_run =
     [Print ''Loading assignment configuration'',
      LoadYaml ''assignment.yml'' None (Inr example_assignment),
      Print ''Checking out due date'']
     @ Run [''/d2g/scripts/checkout_due_date.sh'', ''2023-05-01''] None None (Inr 1)
     # [Print (''Failed to '' @ ''evaluate checkout commit''),
        Print ''usage: deploy_to_grading.py'',
        Print ''       Executes the Deploy-to-Grading pipeline. Make sure to'',
        Print ''       execute the script inside an assignment folder and'',
        Print ''       that the D2G_PATH env variable is set.'']"
    by (simp add: checkout_failed_run_def usage_lines_def)
  have ev: "nonzero_exit (Run [''/d2g/scripts/checkout_due_date.sh'', ''2023-05-01''] None None (Inr 1)) \<and>
   \<not> revert_call example_environ
       (Run [''/d2g/scripts/checkout_due_date.sh'', ''2023-05-01''] None None (Inr 1))"
    by (simp add: revert_call_def example_environ_def)
  have failure: "checkout_failed_run =
     [Print ''Loading assignment configuration'',
      LoadYaml ''assignment.yml'' None (Inr example_assignment),
      Print ''Checking out due date'']
     @ Run [''/d2g/scripts/checkout_due_date.sh'', ''2023-05-01''] None None (Inr 1)
     # [Print (''Failed to '' @ ''evaluate checkout commit''),
        Print ''usage: deploy_to_grading.py'',
        Print ''       Executes the Deploy-to-Grading pipeline. Make sure to'',
        Print ''       execute the script inside an assignment folder and'',
        Print ''       that the D2G_PATH env variable is set.''] \<and>
     nonzero_exit (Run [''/d2g/scripts/checkout_due_date.sh'', ''2023-05-01''] None None (Inr 1)) \<and>
     \<not> revert_call example_environ
       (Run [''/d2g/scripts/checkout_due_date.sh'', ''2023-05-01''] None None (Inr 1))"
    by (intro conjI shape ev [THEN conjunct1] ev [THEN conjunct2])
  have status: "exit_status (Inl (SystemExit (- 1))) \<noteq> 0"
    using step_failure_aborts [OF main_checkout_fails, of example_assignment,
        THEN conjunct1, rule_format, OF failure]
    by (rule conjunct2 [THEN conjunct1])
  have status': "exit_status (Inr ()) = 0"
    using step_failure_aborts [OF main_all_succeed, of example_assignment,
        THEN conjunct2, rule_format, OF ok]
    by (rule conjunct2)
  have run: "main checkout_fails example_environ 0 =
     (Inl (SystemExit (- 1)), 1,
      [Print ''Loading assignment configuration'',
       LoadYaml ''assignment.yml'' None (Inr example_assignment),
       Print ''Checking out due date'']
      @ Run [''/d2g/scripts/checkout_due_date.sh'', ''2023-05-01''] None None (Inr 1)
      # [Print (''Failed to '' @ ''evaluate checkout commit''),
         Print ''usage: deploy_to_grading.py'',
         Print ''       Executes the Deploy-to-Grading pipeline. Make sure to'',
         Print ''       execute the script inside an assignment folder and'',
         Print ''       that the D2G_PATH env variable is set.''])"
    unfolding shape [symmetric] by (rule main_checkout_fails)
  show ?thesis
    by (intro conjI run status status' main_all_succeed ok [THEN conjunct1] ok [THEN conjunct2]
        ev [THEN conjunct1] ev [THEN conjunct2])
qed

subsection \<open>Configuration files\<close>

text \<open>
  Claim C4. When a load of a configuration file raises \<open>FileNotFoundError\<close> or
  \<open>YAMLError\<close>, \<open>_main\<close> prints ``Failed to load'' with the path and the four usage
  lines, does nothing more, and the process ends by \<open>exit(-1)\<close>, a status other than 0:
  this holds of any load event of a run, and in particular the run stops after three
  events and the usage lines when \<open>assignment.yml\<close> cannot be loaded, and the evaluation
  of a task does so when its \<open>task.yml\<close> cannot be loaded.
\<close>

theorem config_load_failure_aborts:
  assumes "e = FileNotFoundError \<or> e = YAMLError"
  shows "(main c environ w = (r, w', pre @ LoadYaml path prefix (Inl e) # post) \<longrightarrow>
            r = Inl (SystemExit (- 1)) \<and> exit_status r \<noteq> 0 \<and>
            post =
              [Print (''Failed to load '' @ path),
               Print ''usage: deploy_to_grading.py'',
               Print ''       Executes the Deploy-to-Grading pipeline. Make sure to'',
               Print ''       execute the script inside an assignment folder and'',
               Print ''       that the D2G_PATH env variable is set.'']) \<and>
         (load_yaml c w ASSIGNMENT_FILE_NAME None = Inl e \<longrightarrow>
            main c environ w =
              (Inl (SystemExit (- 1)), w,
               [Print ''Loading assignment configuration'',
                LoadYaml ''assignment.yml'' None (Inl e),
                Print ''Failed to load assignment.yml'',
                Print ''usage: deploy_to_grading.py'',
                Print ''       Executes the Deploy-to-Grading pipeline. Make sure to'',
                Print ''       execute the script inside an assignment folder and'',
                Print ''       that the D2G_PATH env variable is set.''])) \<and>
         (load_yaml c w (path_join taskname TASK_FILENAME) (Some (upper c taskname)) = Inl e \<longrightarrow>
            evaluate_task c environ taskname ac w =
              (Inl (SystemExit (- 1)), w,
               [Print (''Loading task configuration for task '' @ taskname),
                LoadYaml (path_join taskname TASK_FILENAME) (Some (upper c taskname)) (Inl e),
                Print (''Failed to load '' @ path_join taskname TASK_FILENAME),
                Print ''usage: deploy_to_grading.py'',
                Print ''       Executes the Deploy-to-Grading pipeline. Make sure to'',
                Print ''       execute the script inside an assignment folder and'',
                Print ''       that the D2G_PATH env variable is set.'']))"
proof (intro conjI impI)
  have e: "config_error e" using assms by (simp add: config_error_def)
  {
    assume run: "main c environ w = (r, w', pre @ LoadYaml path prefix (Inl e) # post)"
    have "failed (LoadYaml path prefix (Inl e))" "\<not> revert_call environ (LoadYaml path prefix (Inl e))"
      using e by (simp_all add: revert_call_def split: option.splits)
    then have "r = Inl (SystemExit (- 1)) \<and>
           (\<exists>msg. abort_message (LoadYaml path prefix (Inl e)) msg \<and>
              post = Print msg # map Print usage_lines) \<and>
           \<not> list_ex bare_command (pre @ LoadYaml path prefix (Inl e) # post)"
      by (rule failure_aborts [OF run])
    then show "r = Inl (SystemExit (- 1))" "exit_status r \<noteq> 0"
      "post =
              [Print (''Failed to load '' @ path),
               Print ''usage: deploy_to_grading.py'',
               Print ''       Executes the Deploy-to-Grading pipeline. Make sure to'',
               Print ''       execute the script inside an assignment folder and'',
               Print ''       that the D2G_PATH env variable is set.'']"
      by (auto simp: usage_printed)
  }
  {
    assume "load_yaml c w ASSIGNMENT_FILE_NAME None = Inl e"
    then show "main c environ w =
              (Inl (SystemExit (- 1)), w,
               [Print ''Loading assignment configuration'',
                LoadYaml ''assignment.yml'' None (Inl e),
                Print ''Failed to load assignment.yml'',
                Print ''usage: deploy_to_grading.py'',
                Print ''       Executes the Deploy-to-Grading pipeline. Make sure to'',
                Print ''       execute the script inside an assignment folder and'',
                Print ''       that the D2G_PATH env variable is set.''])"
      using e
      by (simp add: main_def load_assignment_config_def try_except_def conf_load_def bind_io_def
          py_print_def usage_printed ASSIGNMENT_FILE_NAME_def)
  }
  {
    assume "load_yaml c w (path_join taskname TASK_FILENAME) (Some (upper c taskname)) = Inl e"
    then show "evaluate_task c environ taskname ac w =
              (Inl (SystemExit (- 1)), w,
               [Print (''Loading task configuration for task '' @ taskname),
                LoadYaml (path_join taskname TASK_FILENAME) (Some (upper c taskname)) (Inl e),
                Print (''Failed to load '' @ path_join taskname TASK_FILENAME),
                Print ''usage: deploy_to_grading.py'',
                Print ''       Executes the Deploy-to-Grading pipeline. Make sure to'',
                Print ''       execute the script inside an assignment folder and'',
                Print ''       that the D2G_PATH env variable is set.''])"
      using e
      by (simp add: evaluate_task_def load_task_config_def try_except_def conf_load_def bind_io_def
          py_print_def usage_printed)
  }
qed

theorem config_load_failure_aborts_witness:
  "(FileNotFoundError = FileNotFoundError \<or> FileNotFoundError = YAMLError) \<and>
   load_yaml assignment_missing 0 ASSIGNMENT_FILE_NAME None = Inl FileNotFoundError \<and>
   main assignment_missing example_environ 0 =
     (Inl (SystemExit (- 1)), 0,
      [Print ''Loading assignment configuration'',
       LoadYaml ''assignment.yml'' None (Inl FileNotFoundError),
       Print ''Failed to load assignment.yml'',
       Print ''usage: deploy_to_grading.py'',
       Print ''       Executes the Deploy-to-Grading pipeline. Make sure to'',
       Print ''       execute the script inside an assignment folder and'',
       Print ''       that the D2G_PATH env variable is set.'']) \<and>
   (YAMLError = FileNotFoundError \<or> YAMLError = YAMLError) \<and>
   main task_malformed example_environ 0 =
     (Inl (SystemExit (- 1)), 2,
      [Print ''Loading assignment configuration'',
       LoadYaml ''assignment.yml'' None (Inr example_assignment),
       Print ''Checking out due date'',
       Run [''/d2g/scripts/checkout_due_date.sh'', ''2023-05-01''] None None (Inr 0),
       Print ''Overriding repository for task None'',
       Run [''/d2g/scripts/override_repo.py'', ''-a'', ''-r'', ''https://example.org/template.git'']
         None None (Inr 0),
       Print ''Loading task configuration for task task1'']
      @ LoadYaml ''task1/task.yml'' (Some ''TASK1'') (Inl YAMLError)
      # [Print (''Failed to load '' @ ''task1/task.yml''),
         Print ''usage: deploy_to_grading.py'',
         Print ''       Executes the Deploy-to-Grading pipeline. Make sure to'',
         Print ''       execute the script inside an assignment folder and'',
         Print ''       that the D2G_PATH env variable is set.'']) \<and>
   exit_status (Inl (SystemExit (- 1))) \<noteq> 0 \<and>
   load_yaml task_malformed 2 (path_join ''task1'' TASK_FILENAME) (Some (upper task_malformed ''task1''))
     = Inl YAMLError \<and>
   evaluate_task task_malformed example_environ ''task1'' example_assignment 2 =
     (Inl (SystemExit (- 1)), 2,
      [Print (''Loading task configuration for task '' @ ''task1''),
       LoadYaml (path_join ''task1'' TASK_FILENAME) (Some (upper task_malformed ''task1''))
         (Inl YAMLError),
       Print (''Failed to load '' @ path_join ''task1'' TASK_FILENAME),
       Print ''usage: deploy_to_grading.py'',
       Print ''       Executes the Deploy-to-Grading pipeline. Make sure to'',
       Print ''       execute the script inside an assignment folder and'',
       Print ''       that the D2G_PATH env variable is set.''])"
proof -
  have l: "load_yaml assignment_missing 0 ASSIGNMENT_FILE_NAME None = Inl FileNotFoundError"
    by (simp add: assignment_missing_def all_succeed_def)
  have t: "load_yaml task_malformed 2 (path_join ''task1'' TASK_FILENAME)
             (Some (upper task_malformed ''task1'')) = Inl YAMLError"
    by (simp add: task_malformed_def all_succeed_def)
  have run: "main task_malformed example_environ 0 =
     (Inl (SystemExit (- 1)), 2,
      [Print ''Loading assignment configuration'',
       LoadYaml ''assignment.yml'' None (Inr example_assignment),
       Print ''Checking out due date'',
       Run [''/d2g/scripts/checkout_due_date.sh'', ''2023-05-01''] None None (Inr 0),
       Print ''Overriding repository for task None'',
       Run [''/d2g/scripts/override_repo.py'', ''-a'', ''-r'', ''https://example.org/template.git'']
         None None (Inr 0),
       Print ''Loading task configuration for task task1'']
      @ LoadYaml ''task1/task.yml'' (Some ''TASK1'') (Inl YAMLError)
      # [Print (''Failed to load '' @ ''task1/task.yml''),
         Print ''usage: deploy_to_grading.py'',
         Print ''       Executes the Deploy-to-Grading pipeline. Make sure to'',
         Print ''       execute the script inside an assignment folder and'',
         Print ''       that the D2G_PATH env variable is set.''])"
    by code_simp
  have status: "exit_status (Inl (SystemExit (- 1))) \<noteq> 0"
    using config_load_failure_aborts [where e = YAMLError and c = task_malformed
        and environ = example_environ and w = 0 and r = "Inl (SystemExit (- 1))" and w' = 2
        and path = "''task1/task.yml''" and prefix = "Some ''TASK1''"] run
    by blast
  have missing: "main assignment_missing example_environ 0 =
     (Inl (SystemExit (- 1)), 0,
      [Print ''Loading assignment configuration'',
       LoadYaml ''assignment.yml'' None (Inl FileNotFoundError),
       Print ''Failed to load assignment.yml'',
       Print ''usage: deploy_to_grading.py'',
       Print ''       Executes the Deploy-to-Grading pipeline. Make sure to'',
       Print ''       execute the script inside an assignment folder and'',
       Print ''       that the D2G_PATH env variable is set.''])"
    using config_load_failure_aborts [where e = FileNotFoundError and c = assignment_missing
        and environ = example_environ and w = 0] l
    by blast
  have task: "evaluate_task task_malformed example_environ ''task1'' example_assignment 2 =
     (Inl (SystemExit (- 1)), 2,
      [Print (''Loading task configuration for task '' @ ''task1''),
       LoadYaml (path_join ''task1'' TASK_FILENAME) (Some (upper task_malformed ''task1''))
         (Inl YAMLError),
       Print (''Failed to load '' @ path_join ''task1'' TASK_FILENAME),
       Print ''usage: deploy_to_grading.py'',
       Print ''       Executes the Deploy-to-Grading pipeline. Make sure to'',
       Print ''       execute the script inside an assignment folder and'',
       Print ''       that the D2G_PATH env variable is set.''])"
    using config_load_failure_aborts [where e = YAMLError and c = task_malformed
        and environ = example_environ and w = 2 and taskname = "''task1''"
        and ac = example_assignment] t
    by blast
  show ?thesis using l t run status missing task by simp
qed

subsection \<open>The revert step\<close>





subsection \<open>The environment of the evaluation step\<close>

lemma map_of_dict_update: "map_of (dict_update d kwargs) = map_of d ++ map_of (rev kwargs)"
  unfolding dict_update_def
proof (induction kwargs arbitrary: d)
  case Nil
  show ?case by simp
next
  case (Cons kv kwargs)
  obtain k v where kv: "kv = (k, v)" by (cases kv)
  show ?case
    unfolding kv by (simp add: Cons.IH update_conv' map_add_upd_left fun_eq_iff map_add_def
        split: option.splits)
qed

lemma map_of_rev_distinct: "distinct (map fst xs) \<Longrightarrow> map_of (rev xs) = map_of xs"
proof -
  assume d: "distinct (map fst xs)"
  then have "distinct (map fst (rev xs))" by (simp add: rev_map [symmetric])
  then show ?thesis using d map_of_inject_set [of "rev xs" xs] by simp
qed

lemma kwargs_unpack_two:
  "kwargs_unpack [] [tc, ac] =
     (if set (map fst tc) \<inter> set (map fst ac) = {} then Inr (tc @ ac) else Inl TypeError)"
proof -
  have "list_ex (\<lambda>k. k \<in> set (map fst tc)) (map fst ac) \<longleftrightarrow>
          set (map fst tc) \<inter> set (map fst ac) \<noteq> {}"
    unfolding list_ex_iff by blast
  then show ?thesis by (simp add: list_ex_iff)
qed

lemma bind_io_py_dict_two:
  "bind_io (py_dict environ [tc, ac]) f w =
     (if set (map fst tc) \<inter> set (map fst ac) = {} then f (dict_update environ (tc @ ac)) w
      else (Inl TypeError, w, []))"
  unfolding bind_io_def py_dict_def kwargs_unpack_two by simp

lemma merged_lookup:
  assumes tc: "distinct (map fst tc)" and ac: "distinct (map fst ac)"
    and disj: "set (map fst tc) \<inter> set (map fst ac) = {}"
  shows "map_of (dict_update environ (tc @ ac)) k =
           (case map_of ac k of
              Some v \<Rightarrow> Some v
            | None \<Rightarrow> (case map_of tc k of Some v \<Rightarrow> Some v | None \<Rightarrow> map_of environ k))"
proof -
  have "distinct (map fst (tc @ ac))" using tc ac disj by auto
  then have eq: "map_of (dict_update environ (tc @ ac)) = map_of environ ++ map_of (tc @ ac)"
    by (simp only: map_of_dict_update map_of_rev_distinct)
  have "map_of ac k = None \<or> map_of tc k = None"
  proof (rule ccontr)
    assume "\<not> (map_of ac k = None \<or> map_of tc k = None)"
    then have "k \<in> fst ` set ac" "k \<in> fst ` set tc"
      by (simp_all add: map_of_eq_None_iff)
    then show False using disj by auto
  qed
  then show ?thesis unfolding eq by (auto simp add: map_add_def split: option.splits)
qed

text \<open>
  Claim C8, as the script has it. A dict has each key once. When the task configuration
  and the assignment configuration have no key in common, the environment of the
  evaluation subprocess is the process environment updated with both: a key has the
  value of the assignment configuration, it has the value of the task configuration, or
  else the value it has in \<open>os.environ\<close>. When they have a key in common, the call of
  \<open>dict\<close> raises \<open>TypeError\<close> and no subprocess is started.
\<close>

theorem evaluation_environment:
  assumes d2g: "map_of environ ''D2G_PATH'' = Some d2g"
    and tc: "distinct (map fst tc)" and ac: "distinct (map fst ac)"
  shows "(set (map fst tc) \<inter> set (map fst ac) = {} \<longrightarrow>
           (\<exists>env res rest.
              snd (snd (evaluate_metrics c environ taskname metrics tc ac w)) =
                Print (''Evaluating metrics for task '' @ taskname)
                # Run [path_join d2g ''scripts/evaluate_task.py'', taskname] (Some taskname)
                    (Some env) res
                # rest \<and>
              (\<forall>k. map_of env k =
                 (case map_of ac k of
                    Some v \<Rightarrow> Some v
                  | None \<Rightarrow> (case map_of tc k of Some v \<Rightarrow> Some v | None \<Rightarrow> map_of environ k))))) \<and>
         (set (map fst tc) \<inter> set (map fst ac) \<noteq> {} \<longrightarrow>
            evaluate_metrics c environ taskname metrics tc ac w =
              (Inl TypeError, w, [Print (''Evaluating metrics for task '' @ taskname)]))"
proof (intro conjI impI)
  assume disj: "set (map fst tc) \<inter> set (map fst ac) = {}"
  let ?env = "dict_update environ (tc @ ac)"
  let ?argv = "[path_join d2g ''scripts/evaluate_task.py'', taskname]"
  have look: "map_of ?env k =
                 (case map_of ac k of
                    Some v \<Rightarrow> Some v
                  | None \<Rightarrow> (case map_of tc k of Some v \<Rightarrow> Some v | None \<Rightarrow> map_of environ k))" for k
    using tc ac disj by (rule merged_lookup)
  obtain res w1 where sr: "subprocess_run c w ?argv (Some taskname) (Some ?env) = (res, w1)"
    by (cases "subprocess_run c w ?argv (Some taskname) (Some ?env)")
  have "\<exists>rest. snd (snd (evaluate_metrics c environ taskname metrics tc ac w)) =
          Print (''Evaluating metrics for task '' @ taskname)
          # Run ?argv (Some taskname) (Some ?env) res # rest"
    using d2g disj sr
    by (cases res)
       (simp_all add: evaluate_metrics_def bind_io_getitem bind_io_run bind_io_py_dict_two
         return_io_def)
  then show "\<exists>env res rest.
              snd (snd (evaluate_metrics c environ taskname metrics tc ac w)) =
                Print (''Evaluating metrics for task '' @ taskname)
                # Run [path_join d2g ''scripts/evaluate_task.py'', taskname] (Some taskname)
                    (Some env) res
                # rest \<and>
              (\<forall>k. map_of env k =
                 (case map_of ac k of
                    Some v \<Rightarrow> Some v
                  | None \<Rightarrow> (case map_of tc k of Some v \<Rightarrow> Some v | None \<Rightarrow> map_of environ k)))"
    using look by blast
next
  assume "set (map fst tc) \<inter> set (map fst ac) \<noteq> {}"
  then show "evaluate_metrics c environ taskname metrics tc ac w =
              (Inl TypeError, w, [Print (''Evaluating metrics for task '' @ taskname)])"
    using d2g
    by (simp add: evaluate_metrics_def bind_io_getitem bind_io_py_dict_two)
qed

theorem evaluation_environment_witness:
  "map_of example_environ ''D2G_PATH'' = Some ''/d2g'' \<and>
   distinct (map fst example_task) \<and> distinct (map fst example_assignment) \<and>
   set (map fst example_task) \<inter> set (map fst example_assignment) = {} \<and>
   (\<exists>env res rest.
      snd (snd (evaluate_metrics all_succeed example_environ ''task1'' ''compile test''
                  example_task example_assignment 0)) =
        Print (''Evaluating metrics for task '' @ ''task1'')
        # Run [path_join ''/d2g'' ''scripts/evaluate_task.py'', ''task1''] (Some ''task1'')
            (Some env) res
        # rest \<and>
      (\<forall>k. map_of env k =
         (case map_of example_assignment k of
            Some v \<Rightarrow> Some v
          | None \<Rightarrow> (case map_of example_task k of
                       Some v \<Rightarrow> Some v
                     | None \<Rightarrow> map_of example_environ k)))) \<and>
   distinct (map fst [(''LIMIT'', ''task'')]) \<and> distinct (map fst [(''LIMIT'', ''assignment'')]) \<and>
   set (map fst [(''LIMIT'', ''task'')]) \<inter> set (map fst [(''LIMIT'', ''assignment'')]) \<noteq> {} \<and>
   evaluate_metrics all_succeed example_environ ''task1'' ''compile test''
     [(''LIMIT'', ''task'')] [(''LIMIT'', ''assignment'')] 0 =
     (Inl TypeError, 0, [Print (''Evaluating metrics for task '' @ ''task1'')])"
proof -
  have d2g: "map_of example_environ ''D2G_PATH'' = Some ''/d2g''"
    by (simp add: example_environ_def)
  have d: "distinct (map fst example_task)" "distinct (map fst example_assignment)"
    "set (map fst example_task) \<inter> set (map fst example_assignment) = {}"
    by (simp_all add: example_task_def example_assignment_def)
  have d': "distinct (map fst [(''LIMIT'', ''task'')])"
    "distinct (map fst [(''LIMIT'', ''assignment'')])"
    "set (map fst [(''LIMIT'', ''task'')]) \<inter> set (map fst [(''LIMIT'', ''assignment'')]) \<noteq> {}"
    by simp_all
  show ?thesis
    using evaluation_environment [OF d2g d(1,2), of all_succeed "''task1''" "''compile test''" 0]
      evaluation_environment [OF d2g d'(1,2), of all_succeed "''task1''" "''compile test''" 0]
      d2g d d'
    by blast
qed

text \<open>
  Claim C8 says that for a key of both configurations the value of the assignment
  configuration wins. With such a key the evaluation step raises \<open>TypeError\<close> after its
  first print, and starts no subprocess.
\<close>

theorem shared_key_raises_type_error:
  "evaluate_metrics all_succeed example_environ ''task1'' ''compile test''
     [(''LIMIT'', ''task'')] [(''LIMIT'', ''assignment'')] 0 =
     (Inl TypeError, 0, [Print ''Evaluating metrics for task task1''])"
  by code_simp

subsection \<open>The steps, one by one\<close>

lemma bind_io_Inr: "m w = (Inr x, w1, t1) \<Longrightarrow> bind_io m f w = prepend_events t1 (f x w1)"
  by (simp add: bind_io_def)

lemma bind_io_return_io [simp]: "bind_io m return_io w = m w"
  by (simp add: bind_io_def return_io_def split: prod.splits sum.splits)

lemma bind_io_Inl: "m w = (Inl e, w1, t1) \<Longrightarrow> bind_io m f w = (Inl e, w1, t1)"
  by (simp add: bind_io_def)

lemma load_assignment_config_ok:
  "load_yaml c w ASSIGNMENT_FILE_NAME None = Inr ac \<Longrightarrow>
   load_assignment_config c w = (Inr ac, w, assignment_loaded ac)"
  by (simp add: load_assignment_config_def try_except_def conf_load_def assignment_loaded_def)

lemma load_task_config_ok:
  "load_yaml c w (path_join taskname TASK_FILENAME) (Some (upper c taskname)) = Inr tc \<Longrightarrow>
   load_task_config c taskname w = (Inr tc, w, task_loaded c taskname tc)"
  by (simp add: load_task_config_def try_except_def conf_load_def task_loaded_def)

lemma checkout_due_date_ok:
  "map_of environ ''D2G_PATH'' = Some d2g \<Longrightarrow>
   subprocess_run c w [path_join d2g ''scripts/checkout_due_date.sh'', due_date] None None
     = (Inr 0, w1) \<Longrightarrow>
   checkout_due_date c environ due_date w = (Inr (), w1, checked_out d2g due_date)"
  by (simp add: checkout_due_date_def bind_io_getitem bind_io_run return_io_def checked_out_def)

lemma override_assignment_ok:
  "map_of environ ''D2G_PATH'' = Some d2g \<Longrightarrow>
   subprocess_run c w [path_join d2g ''scripts/override_repo.py'', ''-a'', ''-r'', repository]
     None None = (Inr 0, w1) \<Longrightarrow>
   override_repo c environ None repository None w = (Inr (), w1, assignment_overridden d2g repository)"
  by (simp add: override_repo_def bind_io_getitem bind_io_run return_io_def
      assignment_overridden_def str_of_def)

lemma main_until_tasks:
  assumes load: "load_yaml c w ASSIGNMENT_FILE_NAME None = Inr ac"
    and keys: "map_of ac ''ASSIGNMENT_DUE_DATE'' = Some due_date"
      "map_of ac ''ASSIGNMENT_TEMPLATE_REPOSITORY'' = Some repository"
    and d2g: "map_of environ ''D2G_PATH'' = Some d2g"
    and checkout:
      "subprocess_run c w [path_join d2g ''scripts/checkout_due_date.sh'', due_date] None None
         = (Inr 0, w1)"
    and override:
      "subprocess_run c w1 [path_join d2g ''scripts/override_repo.py'', ''-a'', ''-r'', repository]
         None None = (Inr 0, w2)"
  shows "main c environ w =
     prepend_events
       (assignment_loaded ac @ checked_out d2g due_date @ assignment_overridden d2g repository)
       (bind_io (getitem ac ''ASSIGNMENT_TASKS'') (\<lambda>tasks.
        bind_io (evaluate_tasks c environ (py_split CHR '' '' tasks) ac) (\<lambda>_.
        bind_io (present_results c environ ac) (\<lambda>_.
        revert_checkout c environ))) w2)"
  unfolding main_def
  by (simp add: bind_io_getitem keys
      bind_io_Inr [where m = "load_assignment_config c" and w = w,
        OF load_assignment_config_ok [OF load]]
      bind_io_Inr [where m = "checkout_due_date c environ due_date" and w = w,
        OF checkout_due_date_ok [OF d2g checkout]]
      bind_io_Inr [where m = "override_repo c environ None repository None" and w = w1,
        OF override_assignment_ok [OF d2g override]])

lemma evaluate_tasks_append:
  "evaluate_tasks c environ (ts1 @ ts2) ac =
     bind_io (evaluate_tasks c environ ts1 ac) (\<lambda>_. evaluate_tasks c environ ts2 ac)"
proof (induction ts1)
  case Nil
  show ?case by (simp add: fun_eq_iff)
next
  case (Cons t ts1)
  show ?case
    by (simp add: Cons.IH fun_eq_iff bind_io_def split: prod.splits sum.splits)
qed

lemma exit_status_uncaught [simp]: "exit_status (Inl (KeyError k)) = 1"
  by (simp add: exit_status_def)

subsection \<open>Empty lists\<close>

lemma load_task_config_events:
  "\<exists>rest. snd (snd (load_task_config c t w)) =
     [Print (''Loading task configuration for task '' @ t),
      LoadYaml (path_join t TASK_FILENAME) (Some (upper c t))
        (load_yaml c w (path_join t TASK_FILENAME) (Some (upper c t)))] @ rest"
  by (auto simp: load_task_config_def try_except_def conf_load_def split: sum.splits)

lemma evaluate_task_events:
  "\<exists>rest. snd (snd (evaluate_task c environ t ac w)) =
     [Print (''Loading task configuration for task '' @ t),
      LoadYaml (path_join t TASK_FILENAME) (Some (upper c t))
        (load_yaml c w (path_join t TASK_FILENAME) (Some (upper c t)))] @ rest"
proof -
  obtain rest where "snd (snd (load_task_config c t w)) =
     [Print (''Loading task configuration for task '' @ t),
      LoadYaml (path_join t TASK_FILENAME) (Some (upper c t))
        (load_yaml c w (path_join t TASK_FILENAME) (Some (upper c t)))] @ rest"
    using load_task_config_events [where c = c and t = t and w = w] by (elim exE)
  then show ?thesis
    unfolding evaluate_task_def by (rule events_bind_prefix)
qed

lemma execute_metrics_empty:
  assumes "map_of environ ''D2G_PATH'' = Some d2g"
  shows "execute_metrics c environ taskname [] w =
     (let argv = metric_resolution_spec (path_exists c w) (path_join d2g ''scripts/metrics/'') [];
          attempt = [Print (''Executing metric  for task '' @ taskname)]
      in case subprocess_run c w argv (Some taskname) None of
           (Inl e, w1) \<Rightarrow> (Inl e, w1, attempt @ [Run argv (Some taskname) None (Inl e)])
         | (Inr rc, w1) \<Rightarrow>
             if rc \<noteq> 0 then
               (Inl (SystemExit (- 1)), w1,
                attempt @ [Run argv (Some taskname) None (Inr rc), Print ''Failed to execute metric '']
                  @ map Print usage_lines)
             else (Inr (), w1, attempt @ [Run argv (Some taskname) None (Inr 0)]))"
  unfolding execute_metrics_def
  by (simp add: Let_def bind_io_run return_io_def
      bind_io_Inr [where m = "get_metric_script_path c environ []" and w = w,
        OF get_metric_script_path_resolved [OF assms]]
      split: prod.splits sum.splits)

text \<open>
  Claim C9. \<open>"".split(" ")\<close> is the list of one empty string. So the task loop over an
  empty \<open>ASSIGNMENT_TASKS\<close> is one evaluation of the task named \<open>""\<close>: once the checkout and
  the assignment override have succeeded, the run goes on with the print and the load
  of \<open>_load_task_config("")\<close>, of file \<open>task.yml\<close> with prefix \<open>""\<close>. And the metric loop
  over an empty metrics value is one attempt, with the empty metric name: one print, one
  resolution of the name \<open>""\<close>, one child process, and the check of its code.
\<close>

theorem empty_list_is_one_empty_name:
  assumes d2g: "map_of environ ''D2G_PATH'' = Some d2g"
  shows "py_split CHR '' '' [] = [[]] \<and>
     evaluate_tasks c environ (py_split CHR '' '' []) ac w = evaluate_task c environ [] ac w \<and>
     (load_yaml c w ASSIGNMENT_FILE_NAME None = Inr ac \<and>
      map_of ac ''ASSIGNMENT_DUE_DATE'' = Some due_date \<and>
      map_of ac ''ASSIGNMENT_TEMPLATE_REPOSITORY'' = Some repository \<and>
      map_of ac ''ASSIGNMENT_TASKS'' = Some [] \<and>
      subprocess_run c w [path_join d2g ''scripts/checkout_due_date.sh'', due_date] None None
        = (Inr 0, w1) \<and>
      subprocess_run c w1 [path_join d2g ''scripts/override_repo.py'', ''-a'', ''-r'', repository]
        None None = (Inr 0, w2) \<longrightarrow>
      (\<exists>rest. snd (snd (main c environ w)) =
         assignment_loaded ac @ checked_out d2g due_date @ assignment_overridden d2g repository
         @ [Print ''Loading task configuration for task '',
            LoadYaml TASK_FILENAME (Some []) (load_yaml c w2 TASK_FILENAME (Some []))]
         @ rest)) \<and>
     execute_metrics c environ taskname [] w =
       (let argv = metric_resolution_spec (path_exists c w) (path_join d2g ''scripts/metrics/'') [];
            attempt = [Print (''Executing metric  for task '' @ taskname)]
        in case subprocess_run c w argv (Some taskname) None of
             (Inl e, w1) \<Rightarrow> (Inl e, w1, attempt @ [Run argv (Some taskname) None (Inl e)])
           | (Inr rc, w1) \<Rightarrow>
               if rc \<noteq> 0 then
                 (Inl (SystemExit (- 1)), w1,
                  attempt @ [Run argv (Some taskname) None (Inr rc),
                             Print ''Failed to execute metric '']
                    @ map Print usage_lines)
               else (Inr (), w1, attempt @ [Run argv (Some taskname) None (Inr 0)]))"
proof (intro conjI impI)
  show "py_split CHR '' '' [] = [[]]" by simp
  show "evaluate_tasks c environ (py_split CHR '' '' []) ac w = evaluate_task c environ [] ac w"
    by simp
  show "execute_metrics c environ taskname [] w =
       (let argv = metric_resolution_spec (path_exists c w) (path_join d2g ''scripts/metrics/'') [];
            attempt = [Print (''Executing metric  for task '' @ taskname)]
        in case subprocess_run c w argv (Some taskname) None of
             (Inl e, w1) \<Rightarrow> (Inl e, w1, attempt @ [Run argv (Some taskname) None (Inl e)])
           | (Inr rc, w1) \<Rightarrow>
               if rc \<noteq> 0 then
                 (Inl (SystemExit (- 1)), w1,
                  attempt @ [Run argv (Some taskname) None (Inr rc),
                             Print ''Failed to execute metric '']
                    @ map Print usage_lines)
               else (Inr (), w1, attempt @ [Run argv (Some taskname) None (Inr 0)]))"
    using d2g by (rule execute_metrics_empty)
next
  assume h: "load_yaml c w ASSIGNMENT_FILE_NAME None = Inr ac \<and>
      map_of ac ''ASSIGNMENT_DUE_DATE'' = Some due_date \<and>
      map_of ac ''ASSIGNMENT_TEMPLATE_REPOSITORY'' = Some repository \<and>
      map_of ac ''ASSIGNMENT_TASKS'' = Some [] \<and>
      subprocess_run c w [path_join d2g ''scripts/checkout_due_date.sh'', due_date] None None
        = (Inr 0, w1) \<and>
      subprocess_run c w1 [path_join d2g ''scripts/override_repo.py'', ''-a'', ''-r'', repository]
        None None = (Inr 0, w2)"
  let ?head = "assignment_loaded ac @ checked_out d2g due_date @ assignment_overridden d2g repository"
  let ?first = "[Print ''Loading task configuration for task '',
            LoadYaml TASK_FILENAME (Some []) (load_yaml c w2 TASK_FILENAME (Some []))]"
  have main: "main c environ w =
     prepend_events ?head
       (bind_io (evaluate_tasks c environ [[]] ac) (\<lambda>_.
        bind_io (present_results c environ ac) (\<lambda>_.
        revert_checkout c environ)) w2)"
  proof -
    have 1: "load_yaml c w ASSIGNMENT_FILE_NAME None = Inr ac"
      and 2: "map_of ac ''ASSIGNMENT_DUE_DATE'' = Some due_date"
      and 3: "map_of ac ''ASSIGNMENT_TEMPLATE_REPOSITORY'' = Some repository"
      and 4: "map_of ac ''ASSIGNMENT_TASKS'' = Some []"
      and 5: "subprocess_run c w [path_join d2g ''scripts/checkout_due_date.sh'', due_date]
                None None = (Inr 0, w1)"
      and 6: "subprocess_run c w1
                [path_join d2g ''scripts/override_repo.py'', ''-a'', ''-r'', repository]
                None None = (Inr 0, w2)"
      using h by simp_all
    show ?thesis
      unfolding main_until_tasks [OF 1 2 3 d2g 5 6] by (simp add: bind_io_getitem 4)
  qed
  obtain rest where "snd (snd (evaluate_task c environ [] ac w2)) = ?first @ rest"
    using evaluate_task_events [where c = c and t = "[]" and w = w2 and environ = environ and ac = ac]
    by (auto simp: path_join_def TASK_FILENAME_def upper_def)
  then have "snd (snd (evaluate_tasks c environ [[]] ac w2)) = ?first @ rest" by simp
  then have "\<exists>rest'. snd (snd (bind_io (evaluate_tasks c environ [[]] ac) (\<lambda>_.
        bind_io (present_results c environ ac) (\<lambda>_.
        revert_checkout c environ)) w2)) = ?first @ rest'"
    by (rule events_bind_prefix)
  then obtain rest' where "snd (snd (bind_io (evaluate_tasks c environ [[]] ac) (\<lambda>_.
        bind_io (present_results c environ ac) (\<lambda>_.
        revert_checkout c environ)) w2)) = ?first @ rest'"
    by (elim exE)
  then have "snd (snd (main c environ w)) = ?head @ ?first @ rest'"
    unfolding main by simp
  then have "snd (snd (main c environ w)) =
         assignment_loaded ac @ checked_out d2g due_date @ assignment_overridden d2g repository
         @ [Print ''Loading task configuration for task '',
            LoadYaml TASK_FILENAME (Some []) (load_yaml c w2 TASK_FILENAME (Some []))]
         @ rest'"
    by simp
  then show "\<exists>rest. snd (snd (main c environ w)) =
         assignment_loaded ac @ checked_out d2g due_date @ assignment_overridden d2g repository
         @ [Print ''Loading task configuration for task '',
            LoadYaml TASK_FILENAME (Some []) (load_yaml c w2 TASK_FILENAME (Some []))]
         @ rest"
    by (rule exI)
qed


theorem empty_list_is_one_empty_name_witness:
  "map_of example_environ ''D2G_PATH'' = Some ''/d2g'' \<and>
   load_yaml empty_lists 0 ASSIGNMENT_FILE_NAME None = Inr empty_tasks \<and>
   map_of empty_tasks ''ASSIGNMENT_TASKS'' = Some [] \<and>
   subprocess_run empty_lists 0
     [path_join ''/d2g'' ''scripts/checkout_due_date.sh'', ''2023-05-01''] None None
     = (Inr 0, 1) \<and>
   subprocess_run empty_lists 1
     [path_join ''/d2g'' ''scripts/override_repo.py'', ''-a'', ''-r'',
      ''https://example.org/template.git''] None None = (Inr 0, 2) \<and>
   (\<exists>rest. snd (snd (main empty_lists example_environ 0)) =
      assignment_loaded empty_tasks @ checked_out ''/d2g'' ''2023-05-01''
      @ assignment_overridden ''/d2g'' ''https://example.org/template.git''
      @ [Print ''Loading task configuration for task '',
         LoadYaml TASK_FILENAME (Some []) (load_yaml empty_lists 2 TASK_FILENAME (Some []))]
      @ rest) \<and>
   execute_metrics empty_lists example_environ ''task1'' [] 0 =
     (Inr (), 1,
      [Print ''Executing metric  for task task1'',
       Run [''./gradlew'', []] (Some ''task1'') None (Inr 0)])"
proof -
  have d2g: "map_of example_environ ''D2G_PATH'' = Some ''/d2g''"
    by (simp add: example_environ_def)
  have h: "load_yaml empty_lists 0 ASSIGNMENT_FILE_NAME None = Inr empty_tasks"
    "map_of empty_tasks ''ASSIGNMENT_DUE_DATE'' = Some ''2023-05-01''"
    "map_of empty_tasks ''ASSIGNMENT_TEMPLATE_REPOSITORY'' = Some ''https://example.org/template.git''"
    "map_of empty_tasks ''ASSIGNMENT_TASKS'' = Some []"
    "subprocess_run empty_lists 0
       [path_join ''/d2g'' ''scripts/checkout_due_date.sh'', ''2023-05-01''] None None
       = (Inr 0, 1)"
    "subprocess_run empty_lists 1
       [path_join ''/d2g'' ''scripts/override_repo.py'', ''-a'', ''-r'',
        ''https://example.org/template.git''] None None = (Inr 0, 2)"
    by (simp_all add: empty_lists_def example_with_def empty_tasks_def path_join_def)
  note inst = empty_list_is_one_empty_name [OF d2g, where c = empty_lists and ac = empty_tasks
      and w = 0 and due_date = "''2023-05-01''"
      and repository = "''https://example.org/template.git''" and ?w1.0 = 1 and ?w2.0 = 2
      and taskname = "''task1''"]
  have run: "\<exists>rest. snd (snd (main empty_lists example_environ 0)) =
      assignment_loaded empty_tasks @ checked_out ''/d2g'' ''2023-05-01''
      @ assignment_overridden ''/d2g'' ''https://example.org/template.git''
      @ [Print ''Loading task configuration for task '',
         LoadYaml TASK_FILENAME (Some []) (load_yaml empty_lists 2 TASK_FILENAME (Some []))]
      @ rest"
    using inst h by blast
  have "execute_metrics empty_lists example_environ ''task1'' [] 0 =
       (let argv = metric_resolution_spec (path_exists empty_lists 0)
                     (path_join ''/d2g'' ''scripts/metrics/'') [];
            attempt = [Print (''Executing metric  for task '' @ ''task1'')]
        in case subprocess_run empty_lists 0 argv (Some ''task1'') None of
             (Inl e, w1) \<Rightarrow> (Inl e, w1, attempt @ [Run argv (Some ''task1'') None (Inl e)])
           | (Inr rc, w1) \<Rightarrow>
               if rc \<noteq> 0 then
                 (Inl (SystemExit (- 1)), w1,
                  attempt @ [Run argv (Some ''task1'') None (Inr rc),
                             Print ''Failed to execute metric '']
                    @ map Print usage_lines)
               else (Inr (), w1, attempt @ [Run argv (Some ''task1'') None (Inr 0)]))"
    using inst by blast
  then have metrics: "execute_metrics empty_lists example_environ ''task1'' [] 0 =
     (Inr (), 1,
      [Print ''Executing metric  for task task1'',
       Run [''./gradlew'', []] (Some ''task1'') None (Inr 0)])"
    by (simp add: empty_lists_def example_with_def metric_resolution_spec_def)
  show ?thesis using d2g h run metrics by blast
qed

subsection \<open>Missing keys\<close>

text \<open>
  Claim C10, as the script has it. A key is read when the run reaches the statement that
  needs it, so a missing key ends the run with an uncaught \<open>KeyError\<close> (exit status 1,
  no message and no usage lines) provided the steps before that statement succeed:
  nothing for \<open>ASSIGNMENT_DUE_DATE\<close>, the checkout for \<open>ASSIGNMENT_TEMPLATE_REPOSITORY\<close>,
  the checkout and the assignment override for \<open>ASSIGNMENT_TASKS\<close>, and these, the tasks
  listed before, the load and the override of the task for the metrics key of a task.
\<close>

theorem missing_key_is_uncaught:
  assumes load: "load_yaml c w ASSIGNMENT_FILE_NAME None = Inr ac"
  shows
    "(map_of ac ''ASSIGNMENT_DUE_DATE'' = None \<longrightarrow>
        main c environ w = (Inl (KeyError ''ASSIGNMENT_DUE_DATE''), w, assignment_loaded ac)) \<and>
     (map_of ac ''ASSIGNMENT_DUE_DATE'' = Some due_date \<and>
      map_of environ ''D2G_PATH'' = Some d2g \<and>
      subprocess_run c w [path_join d2g ''scripts/checkout_due_date.sh'', due_date] None None
        = (Inr 0, w1) \<longrightarrow>
        (map_of ac ''ASSIGNMENT_TEMPLATE_REPOSITORY'' = None \<longrightarrow>
           main c environ w =
             (Inl (KeyError ''ASSIGNMENT_TEMPLATE_REPOSITORY''), w1,
              assignment_loaded ac @ checked_out d2g due_date)) \<and>
        (map_of ac ''ASSIGNMENT_TEMPLATE_REPOSITORY'' = Some repository \<and>
         subprocess_run c w1
           [path_join d2g ''scripts/override_repo.py'', ''-a'', ''-r'', repository] None None
           = (Inr 0, w2) \<longrightarrow>
           (map_of ac ''ASSIGNMENT_TASKS'' = None \<longrightarrow>
              main c environ w =
                (Inl (KeyError ''ASSIGNMENT_TASKS''), w2,
                 assignment_loaded ac @ checked_out d2g due_date
                 @ assignment_overridden d2g repository)) \<and>
           (map_of ac ''ASSIGNMENT_TASKS'' = Some tasks \<and>
            py_split CHR '' '' tasks = before @ taskname # after \<and>
            evaluate_tasks c environ before ac w2 = (Inr (), w3, tevs) \<and>
            load_yaml c w3 (path_join taskname TASK_FILENAME) (Some (upper c taskname)) = Inr tc \<and>
            override_repo c environ (Some taskname) repository (Some tc) w3 = (Inr (), w4, oevs) \<and>
            map_of tc (upper c taskname @ ''_METRICS'') = None \<longrightarrow>
              main c environ w =
                (Inl (KeyError (upper c taskname @ ''_METRICS'')), w4,
                 assignment_loaded ac @ checked_out d2g due_date
                 @ assignment_overridden d2g repository
                 @ tevs @ task_loaded c taskname tc @ oevs)))) \<and>
     (\<forall>k. exit_status (Inl (KeyError k)) = 1)"
proof (intro conjI impI allI)
  note load_ok = bind_io_Inr [where m = "load_assignment_config c" and w = w,
      OF load_assignment_config_ok [OF load]]
  {
    assume "map_of ac ''ASSIGNMENT_DUE_DATE'' = None"
    then show "main c environ w = (Inl (KeyError ''ASSIGNMENT_DUE_DATE''), w, assignment_loaded ac)"
      unfolding main_def by (simp add: load_ok bind_io_getitem)
  }
  show "exit_status (Inl (KeyError k)) = 1" for k by simp
  assume h1: "map_of ac ''ASSIGNMENT_DUE_DATE'' = Some due_date \<and>
      map_of environ ''D2G_PATH'' = Some d2g \<and>
      subprocess_run c w [path_join d2g ''scripts/checkout_due_date.sh'', due_date] None None
        = (Inr 0, w1)"
  then have due: "map_of ac ''ASSIGNMENT_DUE_DATE'' = Some due_date"
    and d2g: "map_of environ ''D2G_PATH'' = Some d2g"
    and checkout: "subprocess_run c w [path_join d2g ''scripts/checkout_due_date.sh'', due_date]
        None None = (Inr 0, w1)"
    by simp_all
  note checkout_ok = bind_io_Inr [where m = "checkout_due_date c environ due_date" and w = w,
      OF checkout_due_date_ok [OF d2g checkout]]
  {
    assume "map_of ac ''ASSIGNMENT_TEMPLATE_REPOSITORY'' = None"
    then show "main c environ w =
             (Inl (KeyError ''ASSIGNMENT_TEMPLATE_REPOSITORY''), w1,
              assignment_loaded ac @ checked_out d2g due_date)"
      unfolding main_def by (simp add: load_ok bind_io_getitem due checkout_ok)
  }
  assume h2: "map_of ac ''ASSIGNMENT_TEMPLATE_REPOSITORY'' = Some repository \<and>
         subprocess_run c w1
           [path_join d2g ''scripts/override_repo.py'', ''-a'', ''-r'', repository] None None
           = (Inr 0, w2)"
  then have repo: "map_of ac ''ASSIGNMENT_TEMPLATE_REPOSITORY'' = Some repository"
    and override: "subprocess_run c w1
           [path_join d2g ''scripts/override_repo.py'', ''-a'', ''-r'', repository] None None
           = (Inr 0, w2)"
    by simp_all
  note main = main_until_tasks [OF load due repo d2g checkout override]
  {
    assume "map_of ac ''ASSIGNMENT_TASKS'' = None"
    then show "main c environ w =
                (Inl (KeyError ''ASSIGNMENT_TASKS''), w2,
                 assignment_loaded ac @ checked_out d2g due_date
                 @ assignment_overridden d2g repository)"
      unfolding main by (simp add: bind_io_getitem)
  }
  assume h3: "map_of ac ''ASSIGNMENT_TASKS'' = Some tasks \<and>
            py_split CHR '' '' tasks = before @ taskname # after \<and>
            evaluate_tasks c environ before ac w2 = (Inr (), w3, tevs) \<and>
            load_yaml c w3 (path_join taskname TASK_FILENAME) (Some (upper c taskname)) = Inr tc \<and>
            override_repo c environ (Some taskname) repository (Some tc) w3 = (Inr (), w4, oevs) \<and>
            map_of tc (upper c taskname @ ''_METRICS'') = None"
  then have tasks: "map_of ac ''ASSIGNMENT_TASKS'' = Some tasks"
    and split: "py_split CHR '' '' tasks = before @ taskname # after"
    and before: "evaluate_tasks c environ before ac w2 = (Inr (), w3, tevs)"
    and tload: "load_yaml c w3 (path_join taskname TASK_FILENAME) (Some (upper c taskname)) = Inr tc"
    and toverride: "override_repo c environ (Some taskname) repository (Some tc) w3 = (Inr (), w4, oevs)"
    and nokey: "map_of tc (upper c taskname @ ''_METRICS'') = None"
    by simp_all
  have task: "evaluate_task c environ taskname ac w3 =
      (Inl (KeyError (upper c taskname @ ''_METRICS'')), w4, task_loaded c taskname tc @ oevs)"
    unfolding evaluate_task_def
    by (simp add: bind_io_getitem repo nokey
        bind_io_Inr [where m = "load_task_config c taskname" and w = w3,
          OF load_task_config_ok [OF tload]]
        bind_io_Inr [where m = "override_repo c environ (Some taskname) repository (Some tc)"
          and w = w3, OF toverride])
  have loop: "evaluate_tasks c environ (before @ taskname # after) ac w2 =
      (Inl (KeyError (upper c taskname @ ''_METRICS'')), w4, tevs @ task_loaded c taskname tc @ oevs)"
    unfolding evaluate_tasks_append
    by (simp add: bind_io_Inr [where m = "evaluate_tasks c environ before ac" and w = w2, OF before]
        bind_io_Inl [where m = "evaluate_task c environ taskname ac" and w = w3, OF task])
  show "main c environ w =
                (Inl (KeyError (upper c taskname @ ''_METRICS'')), w4,
                 assignment_loaded ac @ checked_out d2g due_date
                 @ assignment_overridden d2g repository
                 @ tevs @ task_loaded c taskname tc @ oevs)"
    unfolding main
    by (simp add: bind_io_getitem tasks split
        bind_io_Inl [where m = "evaluate_tasks c environ (before @ taskname # after) ac"
          and w = w2, OF loop])
qed

theorem missing_key_is_uncaught_witness:
  "load_yaml (example_with no_due_date example_task 0) 0 ASSIGNMENT_FILE_NAME None
     = Inr no_due_date \<and>
   map_of no_due_date ''ASSIGNMENT_DUE_DATE'' = None \<and>
   main (example_with no_due_date example_task 0) example_environ 0 =
     (Inl (KeyError ''ASSIGNMENT_DUE_DATE''), 0, assignment_loaded no_due_date) \<and>
   map_of no_repository ''ASSIGNMENT_TEMPLATE_REPOSITORY'' = None \<and>
   main (example_with no_repository example_task 0) example_environ 0 =
     (Inl (KeyError ''ASSIGNMENT_TEMPLATE_REPOSITORY''), 1,
      assignment_loaded no_repository @ checked_out ''/d2g'' ''2023-05-01'') \<and>
   map_of no_tasks ''ASSIGNMENT_TASKS'' = None \<and>
   main (example_with no_tasks example_task 0) example_environ 0 =
     (Inl (KeyError ''ASSIGNMENT_TASKS''), 2,
      assignment_loaded no_tasks @ checked_out ''/d2g'' ''2023-05-01''
      @ assignment_overridden ''/d2g'' ''https://example.org/template.git'') \<and>
   map_of [] (upper (example_with example_assignment [] 0) ''task1'' @ ''_METRICS'') = (None :: string option) \<and>
   main (example_with example_assignment [] 0) example_environ 0 =
     (Inl (KeyError (upper (example_with example_assignment [] 0) ''task1'' @ ''_METRICS'')), 3,
      assignment_loaded example_assignment @ checked_out ''/d2g'' ''2023-05-01''
      @ assignment_overridden ''/d2g'' ''https://example.org/template.git''
      @ [] @ task_loaded (example_with example_assignment [] 0) ''task1'' []
      @ [Print ''Overriding repository for task task1'',
         Run [''/d2g/scripts/override_repo.py'', ''-t'', ''task1'', ''-r'',
              ''https://example.org/template.git''] (Some ''task1'') (Some []) (Inr 0)]) \<and>
   exit_status (Inl (KeyError ''ASSIGNMENT_TASKS'')) = 1"
proof -
  have d2g: "map_of example_environ ''D2G_PATH'' = Some ''/d2g''"
    by (simp add: example_environ_def)
  have load: "load_yaml (example_with ac tc code) w ASSIGNMENT_FILE_NAME None = Inr ac"
    for ac tc code w
    by (simp add: example_with_def)
  have checkout: "subprocess_run (example_with ac tc 0) 0
      [path_join ''/d2g'' ''scripts/checkout_due_date.sh'', ''2023-05-01''] None None = (Inr 0, 1)"
    for ac tc
    by (simp add: example_with_def path_join_def)
  have override: "subprocess_run (example_with ac tc 0) 1
      [path_join ''/d2g'' ''scripts/override_repo.py'', ''-a'', ''-r'',
       ''https://example.org/template.git''] None None = (Inr 0, 2)"
    for ac tc
    by (simp add: example_with_def path_join_def)
  have 1: "map_of no_due_date ''ASSIGNMENT_DUE_DATE'' = None" by (simp add: no_due_date_def)
  have 2: "map_of no_repository ''ASSIGNMENT_DUE_DATE'' = Some ''2023-05-01''"
    "map_of no_repository ''ASSIGNMENT_TEMPLATE_REPOSITORY'' = None"
    by (simp_all add: no_repository_def)
  have 3: "map_of no_tasks ''ASSIGNMENT_DUE_DATE'' = Some ''2023-05-01''"
    "map_of no_tasks ''ASSIGNMENT_TEMPLATE_REPOSITORY'' = Some ''https://example.org/template.git''"
    "map_of no_tasks ''ASSIGNMENT_TASKS'' = None"
    by (simp_all add: no_tasks_def)
  have 4: "map_of example_assignment ''ASSIGNMENT_DUE_DATE'' = Some ''2023-05-01''"
    "map_of example_assignment ''ASSIGNMENT_TEMPLATE_REPOSITORY''
       = Some ''https://example.org/template.git''"
    "map_of example_assignment ''ASSIGNMENT_TASKS'' = Some ''task1''"
    "py_split CHR '' '' ''task1'' = [] @ ''task1'' # []"
    "evaluate_tasks (example_with example_assignment [] 0) example_environ [] example_assignment 2
       = (Inr (), 2, [])"
    "load_yaml (example_with example_assignment [] 0) 2 (path_join ''task1'' TASK_FILENAME)
       (Some (upper (example_with example_assignment [] 0) ''task1'')) = Inr []"
    "map_of [] (upper (example_with example_assignment [] 0) ''task1'' @ ''_METRICS'') = (None :: string option)"
    by (simp_all add: example_assignment_def return_io_def example_with_def)
  have 5: "override_repo (example_with example_assignment [] 0) example_environ (Some ''task1'')
       ''https://example.org/template.git'' (Some []) 2 =
       (Inr (), 3, [Print ''Overriding repository for task task1'',
         Run [''/d2g/scripts/override_repo.py'', ''-t'', ''task1'', ''-r'',
              ''https://example.org/template.git''] (Some ''task1'') (Some []) (Inr 0)])"
    by code_simp
  note a = missing_key_is_uncaught [OF load [of no_due_date example_task 0 0],
      where environ = example_environ]
  note b = missing_key_is_uncaught [OF load [of no_repository example_task 0 0],
      where environ = example_environ and d2g = "''/d2g''"
      and due_date = "''2023-05-01''" and ?w1.0 = 1]
  note c = missing_key_is_uncaught [OF load [of no_tasks example_task 0 0],
      where environ = example_environ and d2g = "''/d2g''"
      and due_date = "''2023-05-01''" and ?w1.0 = 1
      and repository = "''https://example.org/template.git''" and ?w2.0 = 2]
  note d = missing_key_is_uncaught [OF load [of example_assignment "[]" 0 0],
      where environ = example_environ and d2g = "''/d2g''"
      and due_date = "''2023-05-01''" and ?w1.0 = 1
      and repository = "''https://example.org/template.git''" and ?w2.0 = 2
      and tasks = "''task1''" and before = "[]" and taskname = "''task1''" and after = "[]"
      and ?w3.0 = 2 and tevs = "[]" and tc = "[]" and ?w4.0 = 3
      and oevs = "[Print ''Overriding repository for task task1'',
         Run [''/d2g/scripts/override_repo.py'', ''-t'', ''task1'', ''-r'',
              ''https://example.org/template.git''] (Some ''task1'') (Some []) (Inr 0)]"]
  have A: "main (example_with no_due_date example_task 0) example_environ 0 =
     (Inl (KeyError ''ASSIGNMENT_DUE_DATE''), 0, assignment_loaded no_due_date)"
    using a 1 by blast
  have B: "main (example_with no_repository example_task 0) example_environ 0 =
     (Inl (KeyError ''ASSIGNMENT_TEMPLATE_REPOSITORY''), 1,
      assignment_loaded no_repository @ checked_out ''/d2g'' ''2023-05-01'')"
    using b 2 d2g checkout by blast
  have C: "main (example_with no_tasks example_task 0) example_environ 0 =
     (Inl (KeyError ''ASSIGNMENT_TASKS''), 2,
      assignment_loaded no_tasks @ checked_out ''/d2g'' ''2023-05-01''
      @ assignment_overridden ''/d2g'' ''https://example.org/template.git'')"
    using c 3 d2g checkout override by blast
  have D: "main (example_with example_assignment [] 0) example_environ 0 =
     (Inl (KeyError (upper (example_with example_assignment [] 0) ''task1'' @ ''_METRICS'')), 3,
      assignment_loaded example_assignment @ checked_out ''/d2g'' ''2023-05-01''
      @ assignment_overridden ''/d2g'' ''https://example.org/template.git''
      @ [] @ task_loaded (example_with example_assignment [] 0) ''task1'' []
      @ [Print ''Overriding repository for task task1'',
         Run [''/d2g/scripts/override_repo.py'', ''-t'', ''task1'', ''-r'',
              ''https://example.org/template.git''] (Some ''task1'') (Some []) (Inr 0)])"
    using d 4 5 d2g checkout override by blast
  show ?thesis using A B C D load 1 2 3 4(7) by simp
qed

text \<open>
  Claim C10 says that a missing key ends the run with an uncaught \<open>KeyError\<close>. When the
  assignment configuration has no \<open>ASSIGNMENT_TASKS\<close> and the checkout script returns 1,
  the run ends before the key is read, with a message, the usage lines and \<open>exit(-1)\<close>.
\<close>

theorem missing_key_after_failed_checkout:
  "load_yaml (example_with no_tasks example_task 1) 0 ASSIGNMENT_FILE_NAME None = Inr no_tasks \<and>
   map_of no_tasks ''ASSIGNMENT_TASKS'' = None \<and>
   main (example_with no_tasks example_task 1) example_environ 0 =
     (Inl (SystemExit (- 1)), 1,
      [Print ''Loading assignment configuration'',
       LoadYaml ''assignment.yml'' None (Inr no_tasks),
       Print ''Checking out due date'',
       Run [''/d2g/scripts/checkout_due_date.sh'', ''2023-05-01''] None None (Inr 1),
       Print ''Failed to evaluate checkout commit''] @ map Print usage_lines)"
  by code_simp

subsection \<open>The order of the steps\<close>

lemma bind_io_InrE:
  assumes "bind_io m f w = (Inr y, w', evs)"
  obtains x w1 t1 t2 where "m w = (Inr x, w1, t1)" "f x w1 = (Inr y, w', t2)" "evs = t1 @ t2"
proof -
  obtain r w1 t1 where mw: "m w = (r, w1, t1)" by (cases "m w")
  show ?thesis
  proof (cases r)
    case (Inl e)
    then show ?thesis using assms mw by (simp add: bind_io_def)
  next
    case (Inr x)
    obtain r2 w2 t2 where fw: "f x w1 = (r2, w2, t2)" by (cases "f x w1")
    then have "r2 = Inr y" "w2 = w'" "evs = t1 @ t2"
      using assms mw Inr by (simp_all add: bind_io_def)
    then show ?thesis using that [of x w1 t1 t2] mw Inr fw by simp
  qed
qed

lemma prepend_events_eq:
  "prepend_events t res = (r, w1, evs) \<longleftrightarrow> (\<exists>t2. res = (r, w1, t2) \<and> evs = t @ t2)"
  by (cases res) auto

lemma getitem_InrD: "getitem d k w = (Inr v, w1, t) \<Longrightarrow> map_of d k = Some v \<and> w1 = w \<and> t = []"
  by (auto simp: getitem_def split: option.splits)

lemma load_assignment_config_InrD:
  "load_assignment_config c w = (Inr ac, w1, t) \<Longrightarrow>
   load_yaml c w ASSIGNMENT_FILE_NAME None = Inr ac \<and> w1 = w \<and> t = assignment_loaded ac"
  by (auto simp: load_assignment_config_def try_except_def conf_load_def assignment_loaded_def
      split: sum.splits if_splits)

lemma run_checked_InrD:
  "bind_io (run c argv cwd env)
     (\<lambda>returncode. if returncode \<noteq> 0 then print_error_and_exit msg else return_io ()) w
     = (Inr u, w1, t) \<Longrightarrow>
   subprocess_run c w argv cwd env = (Inr 0, w1) \<and> t = [Run argv cwd env (Inr 0)]"
  by (auto simp: bind_io_run return_io_def split: prod.splits sum.splits if_splits)

lemma checkout_due_date_InrD:
  "checkout_due_date c environ due_date w = (Inr u, w1, t) \<Longrightarrow>
   \<exists>d2g. map_of environ ''D2G_PATH'' = Some d2g \<and> t = checked_out d2g due_date \<and>
     subprocess_run c w [path_join d2g ''scripts/checkout_due_date.sh'', due_date] None None
       = (Inr 0, w1)"
  by (auto simp: checkout_due_date_def bind_io_getitem checked_out_def prepend_events_eq
      split: option.splits dest!: run_checked_InrD)

lemma override_assignment_InrD:
  "override_repo c environ None repository None w = (Inr u, w1, t) \<Longrightarrow>
   \<exists>d2g. map_of environ ''D2G_PATH'' = Some d2g \<and> t = assignment_overridden d2g repository \<and>
     subprocess_run c w [path_join d2g ''scripts/override_repo.py'', ''-a'', ''-r'', repository]
       None None = (Inr 0, w1)"
  by (auto simp: override_repo_def bind_io_getitem assignment_overridden_def str_of_def
      prepend_events_eq split: option.splits dest!: run_checked_InrD)

lemma py_dict_one: "py_dict environ [ac] w = (Inr (dict_update environ ac), w, [])"
  by (simp add: py_dict_def list_ex_iff)


lemma py_print_InrD: "py_print msg w = (Inr x, w1, t) \<Longrightarrow> w1 = w \<and> t = [Print msg]"
  by (auto simp: py_print_def)

lemma py_dict_one_InrD:
  "py_dict environ [ac] w = (Inr env, w1, t) \<Longrightarrow> env = dict_update environ ac \<and> w1 = w \<and> t = []"
  by (simp add: py_dict_one)

lemma run_InrD:
  "run c argv cwd env w = (Inr rc, w1, t) \<Longrightarrow>
   subprocess_run c w argv cwd env = (Inr rc, w1) \<and> t = [Run argv cwd env (Inr rc)]"
  by (auto simp: run_def split: prod.splits)

lemma check_InrD:
  "(if returncode \<noteq> 0 then print_error_and_exit msg else return_io ()) w = (Inr u, w1, t) \<Longrightarrow>
   returncode = 0 \<and> w1 = w \<and> t = []"
  by (auto simp: return_io_def split: if_splits)

lemma present_results_InrD:
  "present_results c environ ac w = (Inr u, w1, t) \<Longrightarrow>
   \<exists>d2g. map_of environ ''D2G_PATH'' = Some d2g \<and> t = results_presented d2g environ ac"
  unfolding present_results_def create_artifact_def
  by (auto simp: results_presented_def elim!: bind_io_InrE
      dest!: getitem_InrD py_print_InrD py_dict_one_InrD run_InrD check_InrD)

lemma revert_checkout_InrD:
  "revert_checkout c environ w = (Inr u, w1, t) \<Longrightarrow>
   \<exists>d2g rc. map_of environ ''D2G_PATH'' = Some d2g \<and>
     t = [Run [path_join d2g ''scripts/revert_checkout.sh''] None None (Inr rc)]"
  by (auto simp: revert_checkout_def bind_io_getitem bind_io_run return_io_def
      split: option.splits prod.splits sum.splits)

lemma evaluate_tasks_InrD:
  "evaluate_tasks c environ tasks ac w = (Inr u, w', t) \<Longrightarrow>
   \<exists>blocks. t = concat blocks \<and>
     list_all2 (\<lambda>task block. \<exists>w1 w2. evaluate_task c environ task ac w1 = (Inr (), w2, block))
       tasks blocks"
proof (induction tasks arbitrary: w t)
  case Nil
  then show ?case by (simp add: return_io_def)
next
  case (Cons task tasks)
  from Cons.prems obtain x w1 t1 t2 where
    first: "evaluate_task c environ task ac w = (Inr x, w1, t1)"
    and rest: "evaluate_tasks c environ tasks ac w1 = (Inr u, w', t2)" and t: "t = t1 @ t2"
    by (auto elim!: bind_io_InrE)
  from Cons.IH [OF rest] obtain blocks where "t2 = concat blocks"
    "list_all2 (\<lambda>task block. \<exists>w1 w2. evaluate_task c environ task ac w1 = (Inr (), w2, block))
       tasks blocks"
    by blast
  then have "t = concat (t1 # blocks)"
    "list_all2 (\<lambda>task block. \<exists>w1 w2. evaluate_task c environ task ac w1 = (Inr (), w2, block))
       (task # tasks) (t1 # blocks)"
    using t first by auto
  then show ?case by blast
qed

text \<open>
  Claim C5. The events of a run in which \<open>_main\<close> returns are, in this order and each
  once: the load of the assignment configuration, the checkout at the due date of that
  configuration, the override of the assignment from its template repository, for each
  task of the task list in the order of the list the events of one evaluation of that
  task that returns, the creation of the artifact and the print of the results, and the
  revert call.
\<close>

theorem successful_run_order:
  assumes "main c environ w = (Inr (), w', evs)"
  shows "\<exists>ac d2g due_date repository tasks blocks rc.
     load_yaml c w ASSIGNMENT_FILE_NAME None = Inr ac \<and>
     map_of environ ''D2G_PATH'' = Some d2g \<and>
     map_of ac ''ASSIGNMENT_DUE_DATE'' = Some due_date \<and>
     map_of ac ''ASSIGNMENT_TEMPLATE_REPOSITORY'' = Some repository \<and>
     map_of ac ''ASSIGNMENT_TASKS'' = Some tasks \<and>
     list_all2 (\<lambda>task block. \<exists>w1 w2. evaluate_task c environ task ac w1 = (Inr (), w2, block))
       (py_split CHR '' '' tasks) blocks \<and>
     evs = assignment_loaded ac @ checked_out d2g due_date @ assignment_overridden d2g repository
           @ concat blocks @ results_presented d2g environ ac
           @ [Run [path_join d2g ''scripts/revert_checkout.sh''] None None (Inr rc)]"
proof -
  obtain ac w1 t1 due_date w2 t2 w3 t3 repository w4 t4 w5 t5 tasks w6 t6 w7 t7 w8 t8 t9 where
    load: "load_assignment_config c w = (Inr ac, w1, t1)"
    and evs: "evs = t1 @ t2 @ t3 @ t4 @ t5 @ t6 @ t7 @ t8 @ t9"
    and get_due: "getitem ac ''ASSIGNMENT_DUE_DATE'' w1 = (Inr due_date, w2, t2)"
    and checkout: "checkout_due_date c environ due_date w2 = (Inr (), w3, t3)"
    and get_repo: "getitem ac ''ASSIGNMENT_TEMPLATE_REPOSITORY'' w3 = (Inr repository, w4, t4)"
    and override: "override_repo c environ None repository None w4 = (Inr (), w5, t5)"
    and get_tasks: "getitem ac ''ASSIGNMENT_TASKS'' w5 = (Inr tasks, w6, t6)"
    and loop: "evaluate_tasks c environ (py_split CHR '' '' tasks) ac w6 = (Inr (), w7, t7)"
    and present: "present_results c environ ac w7 = (Inr (), w8, t8)"
    and revert: "revert_checkout c environ w8 = (Inr (), w', t9)"
    using assms unfolding main_def by (auto elim!: bind_io_InrE)
  have l: "load_yaml c w ASSIGNMENT_FILE_NAME None = Inr ac" "t1 = assignment_loaded ac"
    using load_assignment_config_InrD [OF load] by simp_all
  have due: "map_of ac ''ASSIGNMENT_DUE_DATE'' = Some due_date" "t2 = []"
    using getitem_InrD [OF get_due] by simp_all
  have repo: "map_of ac ''ASSIGNMENT_TEMPLATE_REPOSITORY'' = Some repository" "t4 = []"
    using getitem_InrD [OF get_repo] by simp_all
  have tasks: "map_of ac ''ASSIGNMENT_TASKS'' = Some tasks" "t6 = []"
    using getitem_InrD [OF get_tasks] by simp_all
  from checkout_due_date_InrD [OF checkout] obtain d2g where
    d2g: "map_of environ ''D2G_PATH'' = Some d2g" and t3: "t3 = checked_out d2g due_date"
    by blast
  have t5: "t5 = assignment_overridden d2g repository"
    using override_assignment_InrD [OF override] d2g by auto
  from evaluate_tasks_InrD [OF loop] obtain blocks where
    t7: "t7 = concat blocks"
    and blocks: "list_all2
       (\<lambda>task block. \<exists>w1 w2. evaluate_task c environ task ac w1 = (Inr (), w2, block))
       (py_split CHR '' '' tasks) blocks"
    by blast
  have t8: "t8 = results_presented d2g environ ac"
    using present_results_InrD [OF present] d2g by auto
  obtain rc where t9: "t9 = [Run [path_join d2g ''scripts/revert_checkout.sh''] None None (Inr rc)]"
    using revert_checkout_InrD [OF revert] d2g by auto
  have "evs = assignment_loaded ac @ checked_out d2g due_date @ assignment_overridden d2g repository
           @ concat blocks @ results_presented d2g environ ac
           @ [Run [path_join d2g ''scripts/revert_checkout.sh''] None None (Inr rc)]"
    using evs l(2) due(2) t3 repo(2) t5 tasks(2) t7 t8 t9 by simp
  then show ?thesis using l(1) d2g due(1) repo(1) tasks(1) blocks by blast
qed

theorem successful_run_order_witness:
  "main all_succeed example_environ 0 = (Inr (), 9, example_run) \<and>
   (\<exists>ac d2g due_date repository tasks blocks rc.
     load_yaml all_succeed 0 ASSIGNMENT_FILE_NAME None = Inr ac \<and>
     map_of example_environ ''D2G_PATH'' = Some d2g \<and>
     map_of ac ''ASSIGNMENT_DUE_DATE'' = Some due_date \<and>
     map_of ac ''ASSIGNMENT_TEMPLATE_REPOSITORY'' = Some repository \<and>
     map_of ac ''ASSIGNMENT_TASKS'' = Some tasks \<and>
     list_all2 (\<lambda>task block. \<exists>w1 w2.
         evaluate_task all_succeed example_environ task ac w1 = (Inr (), w2, block))
       (py_split CHR '' '' tasks) blocks \<and>
     example_run =
       assignment_loaded ac @ checked_out d2g due_date @ assignment_overridden d2g repository
       @ concat blocks @ results_presented d2g example_environ ac
       @ [Run [path_join d2g ''scripts/revert_checkout.sh''] None None (Inr rc)])"
  using successful_run_order [OF main_all_succeed] main_all_succeed by simp

subsection \<open>The task with the empty name\<close>

text \<open>
  Claim C6 says that each task of the list has its own repository overridden. For the
  task named \<open>""\<close>, which an empty task list or a space at its end gives, the evaluation
  of the task calls \<open>override_repo.py\<close> with \<open>-a\<close>, for the assignment, in the directory
  and the environment of the orchestrator: \<open>if taskname:\<close> takes the empty name for
  \<open>None\<close>.
\<close>

theorem empty_task_name_overrides_assignment:
  "evaluate_task empty_lists example_environ [] empty_tasks 2 =
     (Inr (), 5,
      [Print ''Loading task configuration for task '',
       LoadYaml ''task.yml'' (Some []) (Inr [(''_METRICS'', [])]),
       Print ''Overriding repository for task '',
       Run [''/d2g/scripts/override_repo.py'', ''-a'', ''-r'', ''https://example.org/template.git'']
         None None (Inr 0),
       Print ''Executing metric  for task '',
       Run [''./gradlew'', []] (Some []) None (Inr 0),
       Print ''Evaluating metrics for task '',
       Run [''/d2g/scripts/evaluate_task.py'', []] (Some [])
         (Some (example_environ @ [(''_METRICS'', [])] @ empty_tasks)) (Inr 0)])"
  by code_simp

subsection \<open>The tasks with other names\<close>

lemma load_task_config_InrD:
  "load_task_config c taskname w = (Inr tc, w1, t) \<Longrightarrow>
   load_yaml c w (path_join taskname TASK_FILENAME) (Some (upper c taskname)) = Inr tc \<and>
   w1 = w \<and> t = task_loaded c taskname tc"
  by (auto simp: load_task_config_def try_except_def conf_load_def task_loaded_def
      split: sum.splits if_splits)

lemma override_task_InrD:
  "override_repo c environ (Some taskname) repository (Some tc) w = (Inr u, w1, t) \<Longrightarrow>
   taskname \<noteq> [] \<Longrightarrow>
   \<exists>d2g. map_of environ ''D2G_PATH'' = Some d2g \<and> t = task_overridden d2g taskname repository tc"
  by (auto simp: override_repo_def bind_io_getitem task_overridden_def str_of_def
      prepend_events_eq split: option.splits dest!: run_checked_InrD)

lemma py_dict_two_InrD:
  "py_dict environ [tc, ac] w = (Inr env, w1, t) \<Longrightarrow>
   env = dict_update environ (tc @ ac) \<and> w1 = w \<and> t = [] \<and>
   set (map fst tc) \<inter> set (map fst ac) = {}"
  unfolding py_dict_def kwargs_unpack_two by (auto split: if_splits)

lemma evaluate_metrics_InrD:
  "evaluate_metrics c environ taskname metrics tc ac w = (Inr u, w1, t) \<Longrightarrow>
   \<exists>d2g. map_of environ ''D2G_PATH'' = Some d2g \<and> t = task_evaluated d2g environ taskname tc ac \<and>
     set (map fst tc) \<inter> set (map fst ac) = {}"
  unfolding evaluate_metrics_def
  by (auto simp: task_evaluated_def simp del: bind_io_print elim!: bind_io_InrE
      dest!: getitem_InrD py_print_InrD py_dict_two_InrD run_InrD check_InrD)

lemma get_metric_script_path_InrD:
  "get_metric_script_path c environ metric w = (Inr argv, w1, t) \<Longrightarrow> w1 = w \<and> t = []"
  by (auto simp: get_metric_script_path_def bind_io_getitem Let_def split: option.splits if_splits)

lemma execute_metrics_loop_InrD:
  "execute_metrics_loop c environ taskname metrics w = (Inr u, w', t) \<Longrightarrow>
   \<exists>blocks. t = concat blocks \<and> list_all2 (metric_executed c environ taskname) metrics blocks"
proof (induction metrics arbitrary: w t)
  case Nil
  then show ?case by (simp add: return_io_def)
next
  case (Cons metric metrics)
  from Cons.prems obtain wa ta argv wb tb rc wc tc td where
    print: "py_print (''Executing metric '' @ metric @ '' for task '' @ taskname) w
              = (Inr (), wa, ta)"
    and path: "get_metric_script_path c environ metric wa = (Inr argv, wb, tb)"
    and run: "run c argv (Some taskname) None wb = (Inr rc, wc, tc)"
    and rest: "(if rc \<noteq> 0 then print_error_and_exit (''Failed to execute metric '' @ metric)
                else execute_metrics_loop c environ taskname metrics) wc = (Inr u, w', td)"
    and t: "t = ta @ tb @ tc @ td"
    unfolding execute_metrics_loop.simps by (elim bind_io_InrE) auto
  have rc: "rc = 0" using rest by (auto split: if_splits)
  then have loop: "execute_metrics_loop c environ taskname metrics wc = (Inr u, w', td)"
    using rest by simp
  from Cons.IH [OF loop] obtain blocks where
    td: "td = concat blocks"
    and blocks: "list_all2 (metric_executed c environ taskname) metrics blocks"
    by blast
  let ?block = "[Print (''Executing metric '' @ metric @ '' for task '' @ taskname),
                 Run argv (Some taskname) None (Inr 0)]"
  have wa: "wa = w" "ta = [Print (''Executing metric '' @ metric @ '' for task '' @ taskname)]"
    using py_print_InrD [OF print] by simp_all
  have wb: "wb = wa" "tb = []" using get_metric_script_path_InrD [OF path] by simp_all
  have tc: "tc = [Run argv (Some taskname) None (Inr 0)]" using run_InrD [OF run] rc by simp
  have "metric_executed c environ taskname metric ?block"
    unfolding metric_executed_def using path wb by blast
  then have "list_all2 (metric_executed c environ taskname) (metric # metrics) (?block # blocks)"
    using blocks by simp
  moreover have "t = concat (?block # blocks)" using t wa wb tc td by simp
  ultimately show ?case by blast
qed

text \<open>
  For a task whose name is not empty the events of an evaluation that returns are, in
  this order: the load of the configuration of the task,
  the override of the task from the template repository, one execution for each metric
  of the metrics value in the order of the list, and the evaluation with the
  environment made of \<open>os.environ\<close>, the task configuration and the assignment
  configuration.
\<close>

lemma task_steps_in_order:
  assumes "evaluate_task c environ taskname ac w = (Inr (), w', evs)" "taskname \<noteq> []"
  shows "\<exists>tc d2g repository metrics blocks.
     load_yaml c w (path_join taskname TASK_FILENAME) (Some (upper c taskname)) = Inr tc \<and>
     map_of environ ''D2G_PATH'' = Some d2g \<and>
     map_of ac ''ASSIGNMENT_TEMPLATE_REPOSITORY'' = Some repository \<and>
     map_of tc (upper c taskname @ ''_METRICS'') = Some metrics \<and>
     list_all2 (metric_executed c environ taskname) (py_split CHR '' '' metrics) blocks \<and>
     evs = task_loaded c taskname tc @ task_overridden d2g taskname repository tc
           @ concat blocks @ task_evaluated d2g environ taskname tc ac"
proof -
  obtain tc w1 t1 repository w2 t2 w3 t3 metrics w4 t4 w5 t5 metrics' w6 t6 t7 where
    load: "load_task_config c taskname w = (Inr tc, w1, t1)"
    and evs: "evs = t1 @ t2 @ t3 @ t4 @ t5 @ t6 @ t7"
    and get_repo: "getitem ac ''ASSIGNMENT_TEMPLATE_REPOSITORY'' w1 = (Inr repository, w2, t2)"
    and override: "override_repo c environ (Some taskname) repository (Some tc) w2 = (Inr (), w3, t3)"
    and get_metrics: "getitem tc (upper c taskname @ ''_METRICS'') w3 = (Inr metrics, w4, t4)"
    and execute: "execute_metrics c environ taskname metrics w4 = (Inr (), w5, t5)"
    and get_metrics': "getitem tc (upper c taskname @ ''_METRICS'') w5 = (Inr metrics', w6, t6)"
    and evaluate: "evaluate_metrics c environ taskname metrics' tc ac w6 = (Inr (), w', t7)"
    using assms(1) unfolding evaluate_task_def by (elim bind_io_InrE) auto
  have l: "load_yaml c w (path_join taskname TASK_FILENAME) (Some (upper c taskname)) = Inr tc"
    "t1 = task_loaded c taskname tc"
    using load_task_config_InrD [OF load] by simp_all
  have repo: "map_of ac ''ASSIGNMENT_TEMPLATE_REPOSITORY'' = Some repository" "t2 = []"
    using getitem_InrD [OF get_repo] by simp_all
  have metrics: "map_of tc (upper c taskname @ ''_METRICS'') = Some metrics" "t4 = []" "t6 = []"
    using getitem_InrD [OF get_metrics] getitem_InrD [OF get_metrics'] by simp_all
  from override_task_InrD [OF override assms(2)] obtain d2g where
    d2g: "map_of environ ''D2G_PATH'' = Some d2g"
    and t3: "t3 = task_overridden d2g taskname repository tc"
    by blast
  from execute_metrics_loop_InrD [OF execute [unfolded execute_metrics_def]] obtain blocks where
    t5: "t5 = concat blocks"
    and blocks: "list_all2 (metric_executed c environ taskname) (py_split CHR '' '' metrics) blocks"
    by blast
  have t7: "t7 = task_evaluated d2g environ taskname tc ac"
    using evaluate_metrics_InrD [OF evaluate] d2g by auto
  have "evs = task_loaded c taskname tc @ task_overridden d2g taskname repository tc
           @ concat blocks @ task_evaluated d2g environ taskname tc ac"
    using evs l(2) repo(2) metrics(2,3) t3 t5 t7 by simp
  then show ?thesis using l(1) d2g repo(1) metrics(1) blocks by blast
qed

subsection \<open>The configurations as loaded\<close>


































end
